theory Spec2Isabelle
  imports Complex_Main "HOL-Library.Word"
begin

unbundle bit_operations_syntax

chapter \<open>Boxed: the container driver, the stream demuxer and the HTTP handlers\<close>

text \<open>
  A shallow embedding of the parts of \<^verbatim>\<open>internal/driver\<close>, \<^verbatim>\<open>internal/driver/docker\<close> and
  \<^verbatim>\<open>internal/api\<close> that the specification's testable properties talk about. Go's
  \<^verbatim>\<open>byte\<close> is an 8-bit word, \<^verbatim>\<open>int\<close> and \<^verbatim>\<open>int64\<close> are 64-bit two's complement
  integers, a \<^verbatim>\<open>[]byte\<close> or an \<^verbatim>\<open>io.Reader\<close> that ends is the list of the bytes it holds.
\<close>

type_synonym byte = "8 word"

section \<open>The stream demuxer: \<^verbatim>\<open>DockerStream.demux\<close>\<close>

subsection \<open>The two reader primitives the loop uses\<close>

text \<open>
  \<^verbatim>\<open>io.ReadFull(r, buf)\<close> fills \<^verbatim>\<open>buf\<close> or fails: with fewer than \<^verbatim>\<open>len(buf)\<close> bytes left
  it returns \<^verbatim>\<open>io.EOF\<close> or \<^verbatim>\<open>io.ErrUnexpectedEOF\<close>. The model returns the bytes read and
  the rest of the stream, or \<open>None\<close> for the error.
\<close>

definition ReadFull :: "byte list \<Rightarrow> nat \<Rightarrow> (byte list \<times> byte list) option" where
  "ReadFull r n = (if length r < n then None else Some (take n r, drop n r))"

text \<open>
  \<^verbatim>\<open>io.CopyN(dst, src, n)\<close> copies \<^verbatim>\<open>n\<close> bytes; when the source ends early it has copied
  what there was and returns \<^verbatim>\<open>io.EOF\<close>. The model returns the bytes written to the
  destination, the rest of the source, and whether an error was returned.
\<close>

definition CopyN :: "byte list \<Rightarrow> nat \<Rightarrow> byte list \<times> byte list \<times> bool" where
  "CopyN src n = (take n src, drop n src, length src < n)"

subsection \<open>The header\<close>

text \<open>
  \<^verbatim>\<open>payloadSize := int(header[4])<<24 | int(header[5])<<16 | int(header[6])<<8 | int(header[7])\<close>,
  computed in Go's 64-bit \<^verbatim>\<open>int\<close> and read as a signed number.
\<close>

definition payloadSize :: "byte list \<Rightarrow> int" where
  "payloadSize header =
     sint (push_bit 24 (ucast (header ! 4) :: 64 word) OR push_bit 16 (ucast (header ! 5))
           OR push_bit 8 (ucast (header ! 6)) OR ucast (header ! 7))"

subsection \<open>The loop\<close>

text \<open>
  The result is the sequence of bytes written to the pipe before the deferred
  \<^verbatim>\<open>ds.writer.Close()\<close>, that is, what the consumer-facing \<^verbatim>\<open>Read\<close> yields before EOF.
  Every \<^verbatim>\<open>return\<close> of the loop ends that sequence. Stream type 1 copies the payload to the
  pipe and returns on a copy error; type 2 copies it to the process's standard error and
  every other type to \<^verbatim>\<open>io.Discard\<close>, both ignoring the copy's result.
\<close>

function demux :: "byte list \<Rightarrow> byte list" where
  "demux r =
     (case ReadFull r 8 of
        None \<Rightarrow> []
      | Some (header, r1) \<Rightarrow>
          if payloadSize header < 0 then []
          else if header ! 0 = 1 then
            (case CopyN r1 (nat (payloadSize header)) of
               (out, r2, err) \<Rightarrow> if err then out else out @ demux r2)
          else if header ! 0 = 2 then
            (case CopyN r1 (nat (payloadSize header)) of (_, r2, _) \<Rightarrow> demux r2)
          else
            (case CopyN r1 (nat (payloadSize header)) of (_, r2, _) \<Rightarrow> demux r2))"
  by pat_completeness auto
termination
  by (relation "measure length") (auto simp: ReadFull_def CopyN_def split: if_splits)

declare demux.simps [simp del]

subsection \<open>Frames as the backend writes them\<close>

text \<open>
  The Docker header, as the comment in \<^verbatim>\<open>demux\<close> gives it:
  \<^verbatim>\<open>[8]byte: STREAM_TYPE, 0, 0, 0, SIZE_b3, SIZE_b2, SIZE_b1, SIZE_b0\<close>. The three reserved
  bytes are kept as fields, since the loop never looks at them.
\<close>

record frame =
  stream_type :: byte
  reserved1 :: byte
  reserved2 :: byte
  reserved3 :: byte
  payload :: "byte list"

definition be32 :: "nat \<Rightarrow> byte list" where
  "be32 n = [of_nat (n div 2 ^ 24), of_nat (n div 2 ^ 16), of_nat (n div 2 ^ 8), of_nat n]"

definition encode_frame :: "frame \<Rightarrow> byte list" where
  "encode_frame f =
     [stream_type f, reserved1 f, reserved2 f, reserved3 f] @ be32 (length (payload f)) @ payload f"

definition well_formed :: "frame \<Rightarrow> bool" where
  "well_formed f = (length (payload f) < 2 ^ 32)"

definition stdout_payloads :: "frame list \<Rightarrow> byte list" where
  "stdout_payloads fs = concat (map payload (filter (\<lambda>f. stream_type f = 1) fs))"

section \<open>The driver package: errors, configuration, \<^verbatim>\<open>Validate\<close>\<close>

subsection \<open>Errors\<close>

text \<open>
  The sentinel errors of package \<^verbatim>\<open>driver\<close>, the errors the Docker client returns
  (\<open>DockerNotFound\<close> are those for which \<^verbatim>\<open>client.IsErrNotFound\<close> holds), and
  \<^verbatim>\<open>fmt.Errorf\<close> with one \<^verbatim>\<open>%w\<close> verb: \<open>Errorf pre e post\<close> wraps \<open>e\<close>, with the text
  of the format before and after the verb.
\<close>

datatype error =
    ErrSandboxNotFound
  | ErrSandboxAlreadyRunning
  | ErrSandboxNotRunning
  | ErrConnectionFailed
  | ErrResourceExhausted
  | ErrTimeout
  | ErrInvalidConfig
  | DockerNotFound string
  | DockerError string
  | Errorf string error string

fun IsErrNotFound :: "error \<Rightarrow> bool" where
  "IsErrNotFound (DockerNotFound _) = True"
| "IsErrNotFound _ = False"

text \<open>\<^verbatim>\<open>errors.Is\<close>: the error itself or an error it wraps.\<close>

fun errors_Is :: "error \<Rightarrow> error \<Rightarrow> bool" where
  "errors_Is (Errorf pre e post) target = (Errorf pre e post = target \<or> errors_Is e target)"
| "errors_Is e target = (e = target)"

subsection \<open>Floating-point values, as far as they are compared\<close>

text \<open>
  A \<^verbatim>\<open>float64\<close> is a finite value (a real number), an infinity or a NaN. Go's comparisons
  are exact on the values and false whenever an operand is a NaN.
\<close>

datatype float64 = Finite real | PosInf | NegInf | NaN

fun f64_le :: "float64 \<Rightarrow> float64 \<Rightarrow> bool" where
  "f64_le NaN _ = False"
| "f64_le _ NaN = False"
| "f64_le NegInf _ = True"
| "f64_le _ PosInf = True"
| "f64_le (Finite x) (Finite y) = (x \<le> y)"
| "f64_le PosInf _ = False"
| "f64_le _ NegInf = False"

fun f64_gt :: "float64 \<Rightarrow> float64 \<Rightarrow> bool" where
  "f64_gt NaN _ = False"
| "f64_gt _ NaN = False"
| "f64_gt PosInf PosInf = False"
| "f64_gt PosInf _ = True"
| "f64_gt NegInf _ = False"
| "f64_gt (Finite x) (Finite y) = (x > y)"
| "f64_gt (Finite x) PosInf = False"
| "f64_gt (Finite x) NegInf = True"

subsection \<open>\<^verbatim>\<open>SandboxConfig\<close>\<close>

text \<open>
  \<^verbatim>\<open>time.Duration\<close> is an \<^verbatim>\<open>int64\<close> count of nanoseconds. \<^verbatim>\<open>MemoryMB\<close> and
  \<^verbatim>\<open>Timeout\<close> are read here as the integers they hold; \<^verbatim>\<open>Validate\<close> only compares them.
  A Go map is a partial function, \<^verbatim>\<open>nil\<close> being the empty one; \<^verbatim>\<open>Env\<close>, which the
  driver iterates, is a list of pairs.
\<close>

definition Second :: int where
  "Second = 1000000000"

definition Minute :: int where
  "Minute = 60 * Second"

record NetworkPolicy =
  EnableInternet :: bool
  AllowDomains :: "string list"

record FileInjection =
  Path :: string
  ContentBase64 :: string

record SandboxConfig =
  Image :: string
  MemoryMB :: int
  CPUCores :: float64
  Env :: "(string \<times> string) list"
  Timeout :: int
  EnableNetworking :: bool
  AllowedHosts :: "string list"
  WorkDir :: string
  Labels :: "string \<rightharpoonup> string"
  NetworkPolicy :: NetworkPolicy
  Context :: "FileInjection list"

text \<open>
  \<^verbatim>\<open>func (c *SandboxConfig) Validate() error\<close> writes the defaults into the receiver
  and returns an error or \<^verbatim>\<open>nil\<close>; the model returns both the error and the
  configuration as the call leaves it.
\<close>

definition Validate :: "SandboxConfig \<Rightarrow> error option \<times> SandboxConfig" where
  "Validate c =
     (if Image c = [] then (Some (Errorf [] ErrInvalidConfig '': image is required''), c)
      else
        let c1 = (if MemoryMB c \<le> 0 then c\<lparr>MemoryMB := 512\<rparr> else c);
            c2 = (if f64_le (CPUCores c1) (Finite 0) then c1\<lparr>CPUCores := Finite 1\<rparr> else c1);
            c3 = (if Timeout c2 \<le> 0 then c2\<lparr>Timeout := 5 * Minute\<rparr> else c2);
            c4 = (if WorkDir c3 = [] then c3\<lparr>WorkDir := ''/workspace''\<rparr> else c3)
        in
          if MemoryMB c4 > 8192 then
            (Some (Errorf [] ErrInvalidConfig '': memory cannot exceed 8GB''), c4)
          else if f64_gt (CPUCores c4) (Finite 4) then
            (Some (Errorf [] ErrInvalidConfig '': CPU cannot exceed 4 cores''), c4)
          else if Timeout c4 > 30 * Minute then
            (Some (Errorf [] ErrInvalidConfig '': timeout cannot exceed 30 minutes''), c4)
          else (None, c4))"

text \<open>The zero value of \<^verbatim>\<open>SandboxConfig\<close>, with only the image set.\<close>

definition image_only :: "string \<Rightarrow> SandboxConfig" where
  "image_only img =
     \<lparr>Image = img, MemoryMB = 0, CPUCores = Finite 0, Env = [], Timeout = 0,
      EnableNetworking = False, AllowedHosts = [], WorkDir = [], Labels = Map.empty,
      NetworkPolicy = \<lparr>EnableInternet = False, AllowDomains = []\<rparr>, Context = []\<rparr>"

text \<open>\<^verbatim>\<open>err.Error()\<close>.\<close>

fun Error_string :: "error \<Rightarrow> string" where
  "Error_string ErrSandboxNotFound = ''sandbox not found''"
| "Error_string ErrSandboxAlreadyRunning = ''sandbox already running''"
| "Error_string ErrSandboxNotRunning = ''sandbox not running''"
| "Error_string ErrConnectionFailed = ''failed to connect to sandbox agent''"
| "Error_string ErrResourceExhausted = ''resource limit exhausted''"
| "Error_string ErrTimeout = ''operation timed out''"
| "Error_string ErrInvalidConfig = ''invalid sandbox configuration''"
| "Error_string (DockerNotFound msg) = msg"
| "Error_string (DockerError msg) = msg"
| "Error_string (Errorf pre e post) = pre @ Error_string e @ post"

subsection \<open>Sandbox states and \<^verbatim>\<open>SandboxInfo\<close>\<close>

text \<open>\<^verbatim>\<open>SandboxState\<close> is a string type with five named values.\<close>

type_synonym SandboxState = string

definition StateCreating :: SandboxState where
  "StateCreating = ''creating''"

definition StateReady :: SandboxState where
  "StateReady = ''ready''"

definition StateStopping :: SandboxState where
  "StateStopping = ''stopping''"

definition StateStopped :: SandboxState where
  "StateStopped = ''stopped''"

definition StateError :: SandboxState where
  "StateError = ''error''"

text \<open>
  \<^verbatim>\<open>CreatedAt\<close> is a \<^verbatim>\<open>time.Time\<close>; only its zero value occurs in what follows, so the
  field holds the RFC 3339 text it was parsed from, or nothing.
\<close>

record SandboxInfo =
  si_ID :: string
  si_State :: SandboxState
  si_CreatedAt :: "string option"
  si_Config :: SandboxConfig
  si_DriverType :: string
  si_IPAddress :: string
  si_Error :: string

section \<open>Library functions the driver calls\<close>

subsection \<open>\<^verbatim>\<open>path/filepath\<close> on Unix\<close>

definition IsAbs :: "string \<Rightarrow> bool" where
  "IsAbs p = (case p of [] \<Rightarrow> False | c # _ \<Rightarrow> c = CHR ''/'')"

text \<open>The elements of a path between its slashes, empty ones included.\<close>

fun elements :: "string \<Rightarrow> string \<Rightarrow> string list" where
  "elements cur [] = [cur]"
| "elements cur (c # cs) =
     (if c = CHR ''/'' then cur # elements [] cs else elements (cur @ [c]) cs)"

text \<open>
  \<^verbatim>\<open>Clean\<close> drops empty and \<^verbatim>\<open>.\<close> elements and lets each \<^verbatim>\<open>..\<close> remove the element
  before it; \<^verbatim>\<open>..\<close> at the root is dropped and \<^verbatim>\<open>..\<close> at the start of a relative path
  is kept. The stack holds the elements kept so far, last first.
\<close>

fun clean_elements :: "bool \<Rightarrow> string list \<Rightarrow> string list \<Rightarrow> string list" where
  "clean_elements rooted stack [] = rev stack"
| "clean_elements rooted stack (e # es) =
     (if e = [] \<or> e = ''.'' then clean_elements rooted stack es
      else if e = ''..'' then
        (case stack of
           t # ts \<Rightarrow>
             if t \<noteq> ''..'' then clean_elements rooted ts es
             else clean_elements rooted (e # stack) es
         | [] \<Rightarrow>
             if rooted then clean_elements rooted stack es
             else clean_elements rooted (e # stack) es)
      else clean_elements rooted (e # stack) es)"

fun join_slash :: "string list \<Rightarrow> string" where
  "join_slash [] = []"
| "join_slash [e] = e"
| "join_slash (e # es) = e @ ''/'' @ join_slash es"

definition Clean :: "string \<Rightarrow> string" where
  "Clean p =
     (let out = (if IsAbs p then ''/'' else [])
                  @ join_slash (clean_elements (IsAbs p) [] (elements [] p))
      in if out = [] then ''.'' else out)"

text \<open>\<^verbatim>\<open>filepath.Join(a, b)\<close> ignores leading empty elements and cleans the result.\<close>

definition Join :: "string \<Rightarrow> string \<Rightarrow> string" where
  "Join a b = (if a \<noteq> [] then Clean (a @ ''/'' @ b) else if b \<noteq> [] then Clean b else [])"

definition strip_trailing_slashes :: "string \<Rightarrow> string" where
  "strip_trailing_slashes p = rev (dropWhile (\<lambda>c. c = CHR ''/'') (rev p))"

definition Base :: "string \<Rightarrow> string" where
  "Base p =
     (if p = [] then ''.''
      else
        let q = rev (takeWhile (\<lambda>c. c \<noteq> CHR ''/'') (rev (strip_trailing_slashes p)))
        in if q = [] then ''/'' else q)"

definition Dir :: "string \<Rightarrow> string" where
  "Dir p = Clean (rev (dropWhile (\<lambda>c. c \<noteq> CHR ''/'') (rev p)))"

subsection \<open>\<^verbatim>\<open>base64.StdEncoding.DecodeString\<close>\<close>

text \<open>
  The standard alphabet with \<^verbatim>\<open>=\<close> padding, not strict: carriage returns and line feeds
  are skipped wherever they stand, every four characters of the alphabet give three bytes,
  the input may end after a whole group or with a group of two characters and \<^verbatim>\<open>==\<close> or
  of three and \<^verbatim>\<open>=\<close>, and anything else is a \<^verbatim>\<open>CorruptInputError\<close> (\<open>None\<close>).
\<close>

definition b64_value :: "char \<Rightarrow> nat option" where
  "b64_value c =
     (let n = (of_char c :: nat) in
      if 65 \<le> n \<and> n \<le> 90 then Some (n - 65)
      else if 97 \<le> n \<and> n \<le> 122 then Some (n - 71)
      else if 48 \<le> n \<and> n \<le> 57 then Some (n + 4)
      else if n = 43 then Some 62
      else if n = 47 then Some 63
      else None)"

definition is_newline :: "char \<Rightarrow> bool" where
  "is_newline c = (c = CHR 0x0A \<or> c = CHR 0x0D)"

definition quantum_value :: "nat list \<Rightarrow> nat" where
  "quantum_value q = fold (\<lambda>v acc. acc * 64 + v) (take 4 (q @ [0, 0, 0, 0])) 0"

definition quantum_bytes :: "nat list \<Rightarrow> byte list" where
  "quantum_bytes q =
     take (length q - 1)
       [of_nat (quantum_value q div 65536), of_nat (quantum_value q div 256),
        of_nat (quantum_value q)]"

fun decode_from :: "nat list \<Rightarrow> string \<Rightarrow> byte list option" where
  "decode_from q [] = (if q = [] then Some [] else None)"
| "decode_from q (c # cs) =
     (case b64_value c of
        Some v \<Rightarrow>
          if length q = 3 then
            map_option (\<lambda>rest. quantum_bytes (q @ [v]) @ rest) (decode_from [] cs)
          else decode_from (q @ [v]) cs
      | None \<Rightarrow>
          if is_newline c then decode_from q cs
          else if c \<noteq> CHR ''='' then None
          else if length q = 2 then
            (case dropWhile is_newline cs of
               [] \<Rightarrow> None
             | c' # cs' \<Rightarrow>
                 if c' \<noteq> CHR ''='' then None
                 else if dropWhile is_newline cs' = [] then Some (quantum_bytes q)
                 else None)
          else if length q = 3 then
            (if dropWhile is_newline cs = [] then Some (quantum_bytes q) else None)
          else None)"

definition DecodeString :: "string \<Rightarrow> byte list option" where
  "DecodeString s = decode_from [] s"

section \<open>The Docker client, as the driver sees it\<close>

text \<open>
  The types of \<^verbatim>\<open>github.com/docker/docker\<close> that the driver fills in or reads, with the
  fields it touches. \<^verbatim>\<open>HostConfig.Resources.NanoCPUs\<close>, the product of the
  floating-point \<^verbatim>\<open>CPUCores\<close> and \<^verbatim>\<open>1e9\<close>, is left out: nothing below depends on it.
\<close>

record container_Config =
  cc_Image :: string
  cc_Cmd :: "string list"
  cc_Env :: "string list"
  cc_Labels :: "string \<rightharpoonup> string"
  cc_WorkingDir :: string

record Mount =
  mt_Type :: string
  mt_Source :: string
  mt_Target :: string
  mt_ReadOnly :: bool

record HostConfig =
  hc_Memory :: int
  hc_Mounts :: "Mount list"
  hc_NetworkMode :: string

record RemoveOptions =
  Force :: bool
  RemoveVolumes :: bool

record ListOptions =
  lo_All :: bool
  lo_Filters :: "(string \<times> string) list"

record ExecConfig =
  ec_Cmd :: "string list"
  AttachStdin :: bool
  AttachStdout :: bool
  AttachStderr :: bool
  Tty :: bool

record ContainerState =
  Running :: bool
  Dead :: bool
  OOMKilled :: bool

record ContainerJSON =
  cj_ID :: string
  cj_Created :: string
  cj_State :: ContainerState
  cj_IPAddress :: string
  cj_WorkingDir :: string

text \<open>\<^verbatim>\<open>types.Container\<close>, an element of the result of \<^verbatim>\<open>ContainerList\<close>.\<close>

record ContainerSummary =
  cs_ID :: string
  cs_State :: string
  cs_Labels :: "string \<rightharpoonup> string"

text \<open>
  A tar archive is the list of its entries; the modification time that \<^verbatim>\<open>PutFile\<close>
  stamps on the header is the clock's and is not kept.
\<close>

record tar_entry =
  te_Name :: string
  te_Size :: nat
  te_Mode :: nat
  te_Data :: "byte list"

text \<open>
  \<^verbatim>\<open>types.HijackedResponse\<close>: a connection to a process in the container. The process
  is the function from the bytes written to \<^verbatim>\<open>Conn\<close> to the framed bytes that
  \<^verbatim>\<open>Reader\<close> then delivers.
\<close>

record HijackedResponse =
  process :: "byte list \<Rightarrow> byte list"

text \<open>
  The client is a parameter: a record of its methods over a backend state \<open>'e\<close> of any
  type. Each method takes the state and returns its result together with the state it
  leaves. The request context is not modelled.
\<close>

record 'e DockerClient =
  ImageInspectWithRaw :: "'e \<Rightarrow> string \<Rightarrow> error option \<times> 'e"
  ImagePull :: "'e \<Rightarrow> string \<Rightarrow> error option \<times> 'e"
  ContainerCreate :: "'e \<Rightarrow> container_Config \<Rightarrow> HostConfig \<Rightarrow> (error + string) \<times> 'e"
  ContainerStart :: "'e \<Rightarrow> string \<Rightarrow> error option \<times> 'e"
  ContainerRemove :: "'e \<Rightarrow> string \<Rightarrow> RemoveOptions \<Rightarrow> error option \<times> 'e"
  ContainerInspect :: "'e \<Rightarrow> string \<Rightarrow> (error + ContainerJSON) \<times> 'e"
  ContainerExecCreate :: "'e \<Rightarrow> string \<Rightarrow> ExecConfig \<Rightarrow> (error + string) \<times> 'e"
  ContainerExecAttach :: "'e \<Rightarrow> string \<Rightarrow> (error + HijackedResponse) \<times> 'e"
  ContainerList :: "'e \<Rightarrow> ListOptions \<Rightarrow> (error + ContainerSummary list) \<times> 'e"
  CopyToContainer :: "'e \<Rightarrow> string \<Rightarrow> string \<Rightarrow> tar_entry list \<Rightarrow> error option \<times> 'e"

section \<open>The Docker driver\<close>

definition DriverName :: string where
  "DriverName = ''docker''"

definition AgentBinaryPath :: string where
  "AgentBinaryPath = ''/usr/local/bin/boxed-agent''"

definition ManagedLabel :: string where
  "ManagedLabel = ''xyz.boxed.managed''"

record 'e DockerDriver =
  cli :: "'e DockerClient"
  hostAgentPath :: string

subsection \<open>\<^verbatim>\<open>Start\<close> and \<^verbatim>\<open>Stop\<close>\<close>

definition Start :: "'e DockerDriver \<Rightarrow> 'e \<Rightarrow> string \<Rightarrow> error option \<times> 'e" where
  "Start d s cid =
     (case ContainerStart (cli d) s cid of
        (Some err, s') \<Rightarrow> (Some (Errorf ''failed to start container: '' err []), s')
      | (None, s') \<Rightarrow> (None, s'))"

definition Stop :: "'e DockerDriver \<Rightarrow> 'e \<Rightarrow> string \<Rightarrow> error option \<times> 'e" where
  "Stop d s cid =
     (case ContainerRemove (cli d) s cid \<lparr>Force = True, RemoveVolumes = True\<rparr> of
        (Some err, s') \<Rightarrow>
          if IsErrNotFound err then (Some ErrSandboxNotFound, s')
          else (Some (Errorf ''failed to stop/remove container: '' err []), s')
      | (None, s') \<Rightarrow> (None, s'))"

subsection \<open>\<^verbatim>\<open>Connect\<close>\<close>

text \<open>
  \<^verbatim>\<open>DockerStream\<close> wraps the hijacked response; what its \<^verbatim>\<open>Read\<close> yields after the
  bytes \<open>w\<close> were written to it is the demuxed output of the process.
\<close>

record DockerStream =
  resp :: HijackedResponse

definition NewDockerStream :: "HijackedResponse \<Rightarrow> DockerStream" where
  "NewDockerStream r = \<lparr>resp = r\<rparr>"

definition stream_read :: "DockerStream \<Rightarrow> byte list \<Rightarrow> byte list" where
  "stream_read ds w = demux (process (resp ds) w)"

definition agent_exec_config :: ExecConfig where
  "agent_exec_config =
     \<lparr>ec_Cmd = [AgentBinaryPath], AttachStdin = True, AttachStdout = True,
      AttachStderr = True, Tty = False\<rparr>"

definition Connect :: "'e DockerDriver \<Rightarrow> 'e \<Rightarrow> string \<Rightarrow> (error + DockerStream) \<times> 'e" where
  "Connect d s cid =
     (case ContainerInspect (cli d) s cid of
        (Inl err, s1) \<Rightarrow>
          if IsErrNotFound err then (Inl ErrSandboxNotFound, s1) else (Inl err, s1)
      | (Inr info, s1) \<Rightarrow>
          if \<not> Running (cj_State info) then (Inl ErrSandboxNotRunning, s1)
          else
            (case ContainerExecCreate (cli d) s1 cid agent_exec_config of
               (Inl err, s2) \<Rightarrow> (Inl (Errorf ''failed to create exec: '' err []), s2)
             | (Inr execID, s2) \<Rightarrow>
                 (case ContainerExecAttach (cli d) s2 execID of
                    (Inl err, s3) \<Rightarrow> (Inl (Errorf ''failed to attach to exec: '' err []), s3)
                  | (Inr hijacked, s3) \<Rightarrow> (Inr (NewDockerStream hijacked), s3))))"

subsection \<open>\<^verbatim>\<open>Info\<close> and \<^verbatim>\<open>List\<close>\<close>

text \<open>The state that \<^verbatim>\<open>Info\<close> reports for an inspected container.\<close>

definition info_state :: "ContainerState \<Rightarrow> SandboxState" where
  "info_state st =
     (if Running st then StateReady
      else if Dead st \<or> OOMKilled st then StateError
      else StateStopped)"

definition list_entry :: "ContainerSummary \<Rightarrow> SandboxInfo" where
  "list_entry c =
     \<lparr>si_ID = cs_ID c,
      si_State = (if cs_State c = ''running'' then StateReady else StateStopped),
      si_CreatedAt = None, si_Config = image_only [], si_DriverType = DriverName,
      si_IPAddress = [], si_Error = []\<rparr>"

text \<open>
  \<^verbatim>\<open>states\<close> is a slice that may be \<^verbatim>\<open>nil\<close> (\<open>None\<close>). The loop appends one entry per
  container of the backend's answer.
\<close>

definition List ::
  "'e DockerDriver \<Rightarrow> 'e \<Rightarrow> SandboxState list option \<Rightarrow> (error + SandboxInfo list) \<times> 'e" where
  "List d s states =
     (case ContainerList (cli d) s \<lparr>lo_All = True, lo_Filters = []\<rparr> of
        (Inl err, s') \<Rightarrow> (Inl err, s')
      | (Inr containers, s') \<Rightarrow> (Inr (map list_entry containers), s'))"

subsection \<open>\<^verbatim>\<open>resolvePath\<close> and \<^verbatim>\<open>PutFile\<close>\<close>

definition resolvePath :: "'e DockerDriver \<Rightarrow> 'e \<Rightarrow> string \<Rightarrow> string \<Rightarrow> (error + string) \<times> 'e" where
  "resolvePath d s cid path =
     (if IsAbs path then (Inr path, s)
      else
        (case ContainerInspect (cli d) s cid of
           (Inl err, s1) \<Rightarrow> (Inl err, s1)
         | (Inr info, s1) \<Rightarrow>
             (Inr (Join (if cj_WorkingDir info = [] then ''/'' else cj_WorkingDir info) path), s1)))"

text \<open>
  The content is a reader over bytes in memory, so reading all of it does not fail, and
  neither does writing one header and its body to a tar writer over a buffer.
\<close>

definition PutFile ::
  "'e DockerDriver \<Rightarrow> 'e \<Rightarrow> string \<Rightarrow> string \<Rightarrow> byte list \<Rightarrow> error option \<times> 'e" where
  "PutFile d s cid path content =
     (case resolvePath d s cid path of
        (Inl err, s1) \<Rightarrow> (Some err, s1)
      | (Inr absPath, s1) \<Rightarrow>
          (case CopyToContainer (cli d) s1 cid (Dir absPath)
                  [\<lparr>te_Name = Base absPath, te_Size = length content, te_Mode = 420,
                    te_Data = content\<rparr>] of
             (Some err, s2) \<Rightarrow> (Some (Errorf ''docker copy failed: '' err []), s2)
           | (None, s2) \<Rightarrow> (None, s2)))"

subsection \<open>\<^verbatim>\<open>Create\<close>\<close>

text \<open>
  The host configuration and the container configuration that \<^verbatim>\<open>Create\<close> assembles from
  the validated configuration. \<^verbatim>\<open>memoryBytes\<close> is an \<^verbatim>\<open>int64\<close> product; \<^verbatim>\<open>Validate\<close>
  has bounded \<^verbatim>\<open>MemoryMB\<close> by 8192, so it does not wrap. The order in which Go walks the
  \<^verbatim>\<open>Env\<close> map is not fixed; the list's order stands for it.
\<close>

definition host_config :: "'e DockerDriver \<Rightarrow> SandboxConfig \<Rightarrow> HostConfig" where
  "host_config d cfg =
     \<lparr>hc_Memory = MemoryMB cfg * 1024 * 1024,
      hc_Mounts =
        [\<lparr>mt_Type = ''bind'', mt_Source = hostAgentPath d, mt_Target = AgentBinaryPath,
          mt_ReadOnly = True\<rparr>,
         \<lparr>mt_Type = ''tmpfs'', mt_Source = [], mt_Target = ''/tmp'', mt_ReadOnly = False\<rparr>,
         \<lparr>mt_Type = ''tmpfs'', mt_Source = [], mt_Target = ''/output'', mt_ReadOnly = False\<rparr>],
      hc_NetworkMode = (if \<not> EnableNetworking cfg then ''none'' else [])\<rparr>"

definition container_config :: "SandboxConfig \<Rightarrow> container_Config" where
  "container_config cfg =
     \<lparr>cc_Image = Image cfg,
      cc_Cmd = [''tail'', ''-f'', ''/dev/null''],
      cc_Env = ''BOXED_AGENT_MODE=docker'' # map (\<lambda>(k, v). k @ ''='' @ v) (Env cfg),
      cc_Labels = (Labels cfg)(ManagedLabel \<mapsto> ''true''),
      cc_WorkingDir = WorkDir cfg\<rparr>"

text \<open>The image is inspected and, when it is not there, pulled.\<close>

definition ensure_image :: "'e DockerDriver \<Rightarrow> 'e \<Rightarrow> string \<Rightarrow> error option \<times> 'e" where
  "ensure_image d s img =
     (case ImageInspectWithRaw (cli d) s img of
        (Some err, s1) \<Rightarrow>
          if IsErrNotFound err then
            (case ImagePull (cli d) s1 img of
               (Some err', s2) \<Rightarrow>
                 (Some (Errorf (''failed to pull image '' @ img @ '': '') err' []), s2)
             | (None, s2) \<Rightarrow> (None, s2))
          else (Some (Errorf ''failed to inspect image: '' err []), s1)
      | (None, s1) \<Rightarrow> (None, s1))"

text \<open>
  The loop over \<^verbatim>\<open>cfg.Context\<close>. A file whose content does not decode is logged and the
  loop goes on to the next (\<^verbatim>\<open>continue\<close>); a file that \<^verbatim>\<open>PutFile\<close> rejects stops the
  container and ends \<^verbatim>\<open>Create\<close> with an error.
\<close>

fun inject_context ::
  "'e DockerDriver \<Rightarrow> string \<Rightarrow> string \<Rightarrow> 'e \<Rightarrow> FileInjection list \<Rightarrow> error option \<times> 'e" where
  "inject_context d workDir cid s [] = (None, s)"
| "inject_context d workDir cid s (file # files) =
     (case DecodeString (ContentBase64 file) of
        None \<Rightarrow> inject_context d workDir cid s files
      | Some data \<Rightarrow>
          (case PutFile d s cid
                  (if \<not> IsAbs (Path file) then Join workDir (Path file) else Path file) data of
             (Some err, s1) \<Rightarrow>
               (Some (Errorf (''failed to inject file '' @ Path file @ '': '') err []),
                snd (Stop d s1 cid))
           | (None, s1) \<Rightarrow> inject_context d workDir cid s1 files))"

text \<open>
  \<^verbatim>\<open>Create\<close>. The goroutine that stops the container when the timeout has passed runs
  after \<^verbatim>\<open>Create\<close> has returned and is not part of the result.
\<close>

definition Create :: "'e DockerDriver \<Rightarrow> 'e \<Rightarrow> SandboxConfig \<Rightarrow> (error + string) \<times> 'e" where
  "Create d s cfg0 =
     (case Validate cfg0 of
        (Some err, _) \<Rightarrow> (Inl err, s)
      | (None, cfg) \<Rightarrow>
          (case ensure_image d s (Image cfg) of
             (Some err, s1) \<Rightarrow> (Inl err, s1)
           | (None, s1) \<Rightarrow>
               (case ContainerCreate (cli d) s1 (container_config cfg) (host_config d cfg) of
                  (Inl err, s2) \<Rightarrow> (Inl (Errorf ''failed to create container: '' err []), s2)
                | (Inr cid, s2) \<Rightarrow>
                    (case inject_context d (WorkDir cfg) cid s2 (Context cfg) of
                       (Some err, s3) \<Rightarrow> (Inl err, s3)
                     | (None, s3) \<Rightarrow> (Inr cid, s3)))))"

section \<open>The HTTP handlers\<close>

subsection \<open>Requests and responses\<close>

record 'e Handler =
  driver :: "'e DockerDriver"
  apiKey :: string

record CreateSandboxRequest =
  req_Template :: string
  req_Timeout :: int
  req_Metadata :: "string \<rightharpoonup> string"
  req_NetworkPolicy :: NetworkPolicy
  req_Context :: "FileInjection list"

record CreateSandboxResponse =
  SandboxID :: string
  Status :: string

record ExecRequest =
  Code :: string
  Language :: string

record ArtifactEvent =
  ae_Path :: string
  ae_MIME :: string
  ae_DataBase64 :: string
  ae_URL :: string

record ExecResponse =
  Stdout :: string
  Stderr :: string
  Artifacts :: "ArtifactEvent list"
  ExitCode :: "int option"

text \<open>
  What a handler answers: an \<^verbatim>\<open>echo.HTTPError\<close> with its status and message, a JSON body
  with its status, or a status alone.
\<close>

datatype response =
    HTTPError nat string
  | JSON_error nat string
  | JSON_created nat CreateSandboxResponse
  | JSON_exec nat ExecResponse
  | JSON_sandboxes nat "SandboxInfo list"
  | NoContent nat

fun status_code :: "response \<Rightarrow> nat" where
  "status_code (HTTPError n _) = n"
| "status_code (JSON_error n _) = n"
| "status_code (JSON_created n _) = n"
| "status_code (JSON_exec n _) = n"
| "status_code (JSON_sandboxes n _) = n"
| "status_code (NoContent n) = n"

subsection \<open>\<^verbatim>\<open>createSandbox\<close>\<close>

text \<open>An \<^verbatim>\<open>int64\<close> result wraps around.\<close>

definition int64 :: "int \<Rightarrow> int" where
  "int64 x = signed_take_bit 63 x"

text \<open>The template is mapped to an image.\<close>

definition template_image :: "string \<Rightarrow> string" where
  "template_image template =
     (if template = ''python-data-science'' then ''boxed-python:3.9''
      else if template \<noteq> [] \<and> CHR '':'' \<in> set template then template
      else ''python:3.10-slim'')"

text \<open>
  The configuration the handler builds from a request. The struct literal names seven
  fields; the others, \<^verbatim>\<open>EnableNetworking\<close> among them, keep their zero value.
\<close>

definition request_config :: "CreateSandboxRequest \<Rightarrow> SandboxConfig" where
  "request_config req =
     (let cfg =
        \<lparr>Image = template_image (req_Template req), MemoryMB = 512, CPUCores = Finite 1,
         Env = [], Timeout = int64 (req_Timeout req * Second), EnableNetworking = False,
         AllowedHosts = [], WorkDir = [], Labels = req_Metadata req,
         NetworkPolicy = req_NetworkPolicy req, Context = req_Context req\<rparr>
      in if Timeout cfg = 0 then cfg\<lparr>Timeout := 5 * Minute\<rparr> else cfg)"

text \<open>The request is given as \<^verbatim>\<open>c.Bind\<close> leaves it, or \<open>None\<close> when binding failed.\<close>

definition createSandbox ::
  "'e Handler \<Rightarrow> 'e \<Rightarrow> CreateSandboxRequest option \<Rightarrow> response \<times> 'e" where
  "createSandbox h s bound =
     (case bound of
        None \<Rightarrow> (HTTPError 400 ''invalid request'', s)
      | Some req \<Rightarrow>
          (case Create (driver h) s (request_config req) of
             (Inl err, s1) \<Rightarrow>
               (HTTPError 500 (''failed to create sandbox: '' @ Error_string err), s1)
           | (Inr cid, s1) \<Rightarrow>
               (case Start (driver h) s1 cid of
                  (Some err, s2) \<Rightarrow>
                    (HTTPError 500 ''failed to start sandbox'', snd (Stop (driver h) s2 cid))
                | (None, s2) \<Rightarrow>
                    (JSON_created 201 \<lparr>SandboxID = cid, Status = ''ready''\<rparr>, s2))))"

subsection \<open>\<^verbatim>\<open>stopSandbox\<close> and \<^verbatim>\<open>listSandboxes\<close>\<close>

definition stopSandbox :: "'e Handler \<Rightarrow> 'e \<Rightarrow> string \<Rightarrow> response \<times> 'e" where
  "stopSandbox h s cid =
     (if cid = [] then (JSON_error 400 ''id is required'', s)
      else
        (case Stop (driver h) s cid of
           (Some err, s1) \<Rightarrow>
             if errors_Is err ErrSandboxNotFound then (JSON_error 404 ''sandbox not found'', s1)
             else (JSON_error 500 (Error_string err), s1)
         | (None, s1) \<Rightarrow> (NoContent 204, s1)))"

definition listSandboxes :: "'e Handler \<Rightarrow> 'e \<Rightarrow> response \<times> 'e" where
  "listSandboxes h s =
     (case List (driver h) s None of
        (Inl err, s1) \<Rightarrow> (JSON_error 500 (Error_string err), s1)
      | (Inr sandboxes, s1) \<Rightarrow> (JSON_sandboxes 200 sandboxes, s1))"

section \<open>An in-memory container engine\<close>

text \<open>
  One client to run the driver on: an engine that keeps its images and containers in a
  record and answers as the Docker engine does in the cases the driver tells apart. A
  container that is not there gives a not-found error; a forced removal deletes the
  container whether it runs or not; an archive is unpacked into a directory that exists.
  The identifiers handed out by \<^verbatim>\<open>ContainerCreate\<close> come from a list of unused ones.
\<close>

record sim_container =
  sc_ID :: string
  sc_Running :: bool
  sc_Config :: container_Config
  sc_HostConfig :: HostConfig
  sc_Dirs :: "string list"
  sc_Files :: "(string \<times> byte list) list"

record engine =
  images :: "string list"
  registry :: "string list"
  containers :: "sim_container list"
  fresh_ids :: "string list"

definition lookup :: "engine \<Rightarrow> string \<Rightarrow> sim_container option" where
  "lookup e cid = find (\<lambda>c. sc_ID c = cid) (containers e)"

definition no_such_container :: "string \<Rightarrow> error" where
  "no_such_container cid = DockerNotFound (''No such container: '' @ cid)"

definition replace_container :: "engine \<Rightarrow> sim_container \<Rightarrow> engine" where
  "replace_container e c =
     e\<lparr>containers := map (\<lambda>k. if sc_ID k = sc_ID c then c else k) (containers e)\<rparr>"

definition sim_ImageInspectWithRaw :: "engine \<Rightarrow> string \<Rightarrow> error option \<times> engine" where
  "sim_ImageInspectWithRaw e img =
     (if img \<in> set (images e) then (None, e)
      else (Some (DockerNotFound (''No such image: '' @ img)), e))"

definition sim_ImagePull :: "engine \<Rightarrow> string \<Rightarrow> error option \<times> engine" where
  "sim_ImagePull e img =
     (if img \<in> set (registry e) then (None, e\<lparr>images := img # images e\<rparr>)
      else (Some (DockerError (''pull access denied for '' @ img)), e))"

definition sim_ContainerCreate ::
  "engine \<Rightarrow> container_Config \<Rightarrow> HostConfig \<Rightarrow> (error + string) \<times> engine" where
  "sim_ContainerCreate e cfg hc =
     (if cc_Image cfg \<notin> set (images e) then
        (Inl (DockerNotFound (''No such image: '' @ cc_Image cfg)), e)
      else
        (case fresh_ids e of
           [] \<Rightarrow> (Inl (DockerError ''no identifier left''), e)
         | cid # rest \<Rightarrow>
             (Inr cid,
              e\<lparr>fresh_ids := rest,
                containers := containers e @
                  [\<lparr>sc_ID = cid, sc_Running = False, sc_Config = cfg, sc_HostConfig = hc,
                    sc_Dirs = [''/'', ''/tmp'', ''/output'', cc_WorkingDir cfg],
                    sc_Files = []\<rparr>]\<rparr>)))"

definition sim_ContainerStart :: "engine \<Rightarrow> string \<Rightarrow> error option \<times> engine" where
  "sim_ContainerStart e cid =
     (case lookup e cid of
        None \<Rightarrow> (Some (no_such_container cid), e)
      | Some c \<Rightarrow> (None, replace_container e (c\<lparr>sc_Running := True\<rparr>)))"

definition sim_ContainerRemove ::
  "engine \<Rightarrow> string \<Rightarrow> RemoveOptions \<Rightarrow> error option \<times> engine" where
  "sim_ContainerRemove e cid opts =
     (case lookup e cid of
        None \<Rightarrow> (Some (no_such_container cid), e)
      | Some c \<Rightarrow>
          if sc_Running c \<and> \<not> Force opts then
            (Some (DockerError ''cannot remove a running container''), e)
          else (None, e\<lparr>containers := filter (\<lambda>k. sc_ID k \<noteq> cid) (containers e)\<rparr>))"

definition sim_ContainerInspect :: "engine \<Rightarrow> string \<Rightarrow> (error + ContainerJSON) \<times> engine" where
  "sim_ContainerInspect e cid =
     (case lookup e cid of
        None \<Rightarrow> (Inl (no_such_container cid), e)
      | Some c \<Rightarrow>
          (Inr \<lparr>cj_ID = sc_ID c, cj_Created = [],
                cj_State = \<lparr>Running = sc_Running c, Dead = False, OOMKilled = False\<rparr>,
                cj_IPAddress = [], cj_WorkingDir = cc_WorkingDir (sc_Config c)\<rparr>, e))"

definition sim_ContainerExecCreate ::
  "engine \<Rightarrow> string \<Rightarrow> ExecConfig \<Rightarrow> (error + string) \<times> engine" where
  "sim_ContainerExecCreate e cid cfg =
     (case lookup e cid of
        None \<Rightarrow> (Inl (no_such_container cid), e)
      | Some c \<Rightarrow>
          if sc_Running c then (Inr (''exec-'' @ cid), e)
          else (Inl (DockerError ''container is not running''), e))"

text \<open>The process that answers on an attached exec is a parameter of the client.\<close>

definition sim_ContainerExecAttach ::
  "(byte list \<Rightarrow> byte list) \<Rightarrow> engine \<Rightarrow> string \<Rightarrow> (error + HijackedResponse) \<times> engine" where
  "sim_ContainerExecAttach agent e execID = (Inr \<lparr>process = agent\<rparr>, e)"

text \<open>A filter \<^verbatim>\<open>label=key=value\<close> keeps the containers that carry the label.\<close>

definition matches_filter :: "sim_container \<Rightarrow> string \<times> string \<Rightarrow> bool" where
  "matches_filter c f =
     (case f of (name, arg) \<Rightarrow>
        name = ''label'' \<and>
        cc_Labels (sc_Config c) (takeWhile (\<lambda>x. x \<noteq> CHR ''='') arg)
          = Some (drop 1 (dropWhile (\<lambda>x. x \<noteq> CHR ''='') arg)))"

definition summary :: "sim_container \<Rightarrow> ContainerSummary" where
  "summary c =
     \<lparr>cs_ID = sc_ID c, cs_State = (if sc_Running c then ''running'' else ''created''),
      cs_Labels = cc_Labels (sc_Config c)\<rparr>"

definition sim_ContainerList ::
  "engine \<Rightarrow> ListOptions \<Rightarrow> (error + ContainerSummary list) \<times> engine" where
  "sim_ContainerList e opts =
     (Inr (map summary
             (filter (\<lambda>c. (lo_All opts \<or> sc_Running c) \<and> list_all (matches_filter c) (lo_Filters opts))
                (containers e))), e)"

definition sim_CopyToContainer ::
  "engine \<Rightarrow> string \<Rightarrow> string \<Rightarrow> tar_entry list \<Rightarrow> error option \<times> engine" where
  "sim_CopyToContainer e cid dir entries =
     (case lookup e cid of
        None \<Rightarrow> (Some (no_such_container cid), e)
      | Some c \<Rightarrow>
          if dir \<notin> set (sc_Dirs c) then
            (Some (DockerNotFound (''Could not find the file '' @ dir @ '' in container '' @ cid)), e)
          else
            (None,
             replace_container e
               (c\<lparr>sc_Files := map (\<lambda>t. (Join dir (te_Name t), te_Data t)) entries @ sc_Files c\<rparr>)))"

definition sim_client :: "(byte list \<Rightarrow> byte list) \<Rightarrow> engine DockerClient" where
  "sim_client agent =
     \<lparr>ImageInspectWithRaw = sim_ImageInspectWithRaw,
      ImagePull = sim_ImagePull,
      ContainerCreate = sim_ContainerCreate,
      ContainerStart = sim_ContainerStart,
      ContainerRemove = sim_ContainerRemove,
      ContainerInspect = sim_ContainerInspect,
      ContainerExecCreate = sim_ContainerExecCreate,
      ContainerExecAttach = sim_ContainerExecAttach agent,
      ContainerList = sim_ContainerList,
      CopyToContainer = sim_CopyToContainer\<rparr>"

definition sim_driver :: "(byte list \<Rightarrow> byte list) \<Rightarrow> engine DockerDriver" where
  "sim_driver agent = \<lparr>cli = sim_client agent, hostAgentPath = ''/opt/boxed/boxed-agent''\<rparr>"

definition sim_handler :: "(byte list \<Rightarrow> byte list) \<Rightarrow> engine Handler" where
  "sim_handler agent = \<lparr>driver = sim_driver agent, apiKey = []\<rparr>"

text \<open>The file a container holds at a path, if any.\<close>

definition file_at :: "engine \<Rightarrow> string \<Rightarrow> string \<Rightarrow> byte list option" where
  "file_at e cid path =
     (case lookup e cid of None \<Rightarrow> None | Some c \<Rightarrow> map_of (sc_Files c) path)"

text \<open>
  Two containers: \<open>box1\<close>, created by the driver and running, and \<open>other\<close>, a stopped
  container that does not carry the driver's label. \<open>engine0\<close> holds both and the
  default image; \<open>engine1\<close> is \<open>engine0\<close> without \<open>box1\<close>.
\<close>

definition box1 :: sim_container where
  "box1 =
     \<lparr>sc_ID = ''box1'', sc_Running = True,
      sc_Config = \<lparr>cc_Image = ''python:3.10-slim'', cc_Cmd = [''tail'', ''-f'', ''/dev/null''],
                   cc_Env = [''BOXED_AGENT_MODE=docker''],
                   cc_Labels = [ManagedLabel \<mapsto> ''true''], cc_WorkingDir = ''/workspace''\<rparr>,
      sc_HostConfig = \<lparr>hc_Memory = 536870912, hc_Mounts = [], hc_NetworkMode = ''none''\<rparr>,
      sc_Dirs = [''/'', ''/tmp'', ''/output'', ''/workspace''], sc_Files = []\<rparr>"

definition other :: sim_container where
  "other =
     \<lparr>sc_ID = ''other'', sc_Running = False,
      sc_Config = \<lparr>cc_Image = ''nginx:latest'', cc_Cmd = [''nginx''], cc_Env = [],
                   cc_Labels = Map.empty, cc_WorkingDir = ''/''\<rparr>,
      sc_HostConfig = \<lparr>hc_Memory = 0, hc_Mounts = [], hc_NetworkMode = ''bridge''\<rparr>,
      sc_Dirs = [''/''], sc_Files = []\<rparr>"

definition engine0 :: engine where
  "engine0 =
     \<lparr>images = [''python:3.10-slim''], registry = [''boxed-python:3.9''],
      containers = [box1, other], fresh_ids = [''box2'', ''box3'']\<rparr>"

definition engine1 :: engine where
  "engine1 =
     \<lparr>images = [''python:3.10-slim''], registry = [''boxed-python:3.9''],
      containers = [other], fresh_ids = [''box2'', ''box3'']\<rparr>"

text \<open>A process that never answers.\<close>

definition silent_agent :: "byte list \<Rightarrow> byte list" where
  "silent_agent w = []"

subsection \<open>What the injection loop amounts to\<close>

text \<open>
  The injections whose content decodes, each with the path it is written to and its
  bytes; and writing a list of such files in order, stopping at the first that
  \<^verbatim>\<open>PutFile\<close> rejects, which is returned with its error.
\<close>

definition target_path :: "string \<Rightarrow> FileInjection \<Rightarrow> string" where
  "target_path workDir f = (if \<not> IsAbs (Path f) then Join workDir (Path f) else Path f)"

definition decoded_files ::
  "string \<Rightarrow> FileInjection list \<Rightarrow> (FileInjection \<times> string \<times> byte list) list" where
  "decoded_files workDir files =
     concat (map (\<lambda>f. case DecodeString (ContentBase64 f) of
                          None \<Rightarrow> []
                        | Some data \<Rightarrow> [(f, target_path workDir f, data)]) files)"

fun write_files ::
  "'e DockerDriver \<Rightarrow> string \<Rightarrow> 'e \<Rightarrow> (FileInjection \<times> string \<times> byte list) list
     \<Rightarrow> (FileInjection \<times> error) option \<times> 'e" where
  "write_files d cid s [] = (None, s)"
| "write_files d cid s ((f, path, data) # rest) =
     (case PutFile d s cid path data of
        (Some err, s1) \<Rightarrow> (Some (f, err), s1)
      | (None, s1) \<Rightarrow> write_files d cid s1 rest)"

text \<open>
  A configuration with the defaults in place and a given context; the container that
  \<^verbatim>\<open>Create\<close> makes from it on \<open>engine0\<close>, holding given files; \<open>engine0\<close> with that
  container added; and \<open>engine0\<close> after the container was added and removed again.
\<close>

definition default_config :: "FileInjection list \<Rightarrow> SandboxConfig" where
  "default_config ctx =
     \<lparr>Image = ''python:3.10-slim'', MemoryMB = 512, CPUCores = Finite 1, Env = [],
      Timeout = 5 * Minute, EnableNetworking = False, AllowedHosts = [],
      WorkDir = ''/workspace'', Labels = Map.empty,
      NetworkPolicy = \<lparr>EnableInternet = False, AllowDomains = []\<rparr>, Context = ctx\<rparr>"

definition box2 :: "FileInjection list \<Rightarrow> (string \<times> byte list) list \<Rightarrow> sim_container" where
  "box2 ctx files =
     \<lparr>sc_ID = ''box2'', sc_Running = False,
      sc_Config = container_config (default_config ctx),
      sc_HostConfig = host_config (sim_driver silent_agent) (default_config ctx),
      sc_Dirs = [''/'', ''/tmp'', ''/output'', ''/workspace''], sc_Files = files\<rparr>"

definition engine2 :: "FileInjection list \<Rightarrow> (string \<times> byte list) list \<Rightarrow> engine" where
  "engine2 ctx files =
     \<lparr>images = [''python:3.10-slim''], registry = [''boxed-python:3.9''],
      containers = [box1, other, box2 ctx files], fresh_ids = [''box3'']\<rparr>"

definition engine3 :: engine where
  "engine3 =
     \<lparr>images = [''python:3.10-slim''], registry = [''boxed-python:3.9''],
      containers = [box1, other], fresh_ids = [''box3'']\<rparr>"

definition hello_txt :: FileInjection where
  "hello_txt = \<lparr>Path = ''hello.txt'', ContentBase64 = ''aGk=''\<rparr>"

definition bad_txt :: FileInjection where
  "bad_txt = \<lparr>Path = ''bad.txt'', ContentBase64 = ''!!!''\<rparr>"

definition nope_txt :: FileInjection where
  "nope_txt = \<lparr>Path = ''/nope/x.txt'', ContentBase64 = ''aGk=''\<rparr>"

subsection \<open>Clients that are told the network mode\<close>

text \<open>
  \<open>network_none c\<close> is the client \<open>c\<close>, except that every container it creates is
  asked for with network mode \<^verbatim>\<open>none\<close>, whatever the caller passes; \<open>isolated h\<close> is the
  handler \<open>h\<close> over that client. \<open>network_mode_of\<close> reads the network mode a container of
  the in-memory engine was created with, and \<open>open_request\<close> is a request that asks for the
  Internet.
\<close>

definition network_none :: "'e DockerClient \<Rightarrow> 'e DockerClient" where
  "network_none c =
     c\<lparr>ContainerCreate := \<lambda>s cfg hc. ContainerCreate c s cfg (hc\<lparr>hc_NetworkMode := ''none''\<rparr>)\<rparr>"

definition isolated :: "'e Handler \<Rightarrow> 'e Handler" where
  "isolated h = h\<lparr>driver := (driver h)\<lparr>cli := network_none (cli (driver h))\<rparr>\<rparr>"

definition network_mode_of :: "engine \<Rightarrow> string \<Rightarrow> string option" where
  "network_mode_of e cid =
     (case lookup e cid of None \<Rightarrow> None | Some c \<Rightarrow> Some (hc_NetworkMode (sc_HostConfig c)))"

definition open_request :: CreateSandboxRequest where
  "open_request =
     \<lparr>req_Template = [], req_Timeout = 0, req_Metadata = Map.empty,
      req_NetworkPolicy = \<lparr>EnableInternet = True, AllowDomains = [''example.com'']\<rparr>,
      req_Context = []\<rparr>"

section \<open>The line scanner: \<^verbatim>\<open>bufio.Scanner\<close>\<close>

text \<open>
  Both handlers read the agent's answers with a \<^verbatim>\<open>bufio.Scanner\<close> and its default split
  function \<^verbatim>\<open>ScanLines\<close>. The scanner holds a buffer \<^verbatim>\<open>buf\<close> of \<open>buf_len\<close> bytes, of which
  \<^verbatim>\<open>buf[start:end]\<close> is the data read and not yet given out, here \<open>held\<close>; \<open>rd\<close> is what
  the reader has still to deliver. The buffer is doubled when it is full, up to
  \<open>maxTokenSize\<close>.
\<close>

datatype scan_error = EOF | ErrTooLong | ErrNoProgress

record Scanner =
  rd :: "byte list"
  maxTokenSize :: nat
  token :: "byte list"
  buf_len :: nat
  start :: nat
  held :: "byte list"
  s_err :: "scan_error option"

definition MaxScanTokenSize :: nat where
  "MaxScanTokenSize = 64 * 1024"

definition startBufSize :: nat where
  "startBufSize = 4096"

definition NewScanner :: "byte list \<Rightarrow> Scanner" where
  "NewScanner input =
     \<lparr>rd = input, maxTokenSize = MaxScanTokenSize, token = [], buf_len = 0, start = 0,
      held = [], s_err = None\<rparr>"

text \<open>\<^verbatim>\<open>Buffer(buf, max)\<close> with a buffer of capacity \<open>c\<close>: the whole capacity is used.\<close>

definition Buffer :: "Scanner \<Rightarrow> nat \<Rightarrow> nat \<Rightarrow> Scanner" where
  "Buffer s c m = s\<lparr>buf_len := c, maxTokenSize := m\<rparr>"

definition buf_end :: "Scanner \<Rightarrow> nat" where
  "buf_end s = start s + length (held s)"

fun IndexByte :: "byte list \<Rightarrow> byte \<Rightarrow> nat option" where
  "IndexByte [] c = None"
| "IndexByte (b # bs) c = (if b = c then Some 0 else map_option Suc (IndexByte bs c))"

definition dropCR :: "byte list \<Rightarrow> byte list" where
  "dropCR data = (if data \<noteq> [] \<and> last data = 13 then butlast data else data)"

text \<open>\<^verbatim>\<open>ScanLines\<close> returns how far to advance and the token, if there is one.\<close>

definition ScanLines :: "byte list \<Rightarrow> bool \<Rightarrow> nat \<times> byte list option" where
  "ScanLines data atEOF =
     (if atEOF \<and> data = [] then (0, None)
      else
        (case IndexByte data 10 of
           Some i \<Rightarrow> (i + 1, Some (dropCR (take i data)))
         | None \<Rightarrow> if atEOF then (length data, Some (dropCR data)) else (0, None)))"

text \<open>The data is moved to the front of the buffer when that makes room.\<close>

definition shift :: "Scanner \<Rightarrow> Scanner" where
  "shift s =
     (if 0 < start s \<and> (buf_end s = buf_len s \<or> buf_len s div 2 < start s)
      then s\<lparr>start := 0\<rparr> else s)"

definition grow :: "Scanner \<Rightarrow> Scanner" where
  "grow s =
     (let newSize = (if buf_len s * 2 = 0 then startBufSize else buf_len s * 2)
      in s\<lparr>buf_len := min newSize (maxTokenSize s), start := 0\<rparr>)"

text \<open>
  One read into the free part of the buffer. The reader gives as much as fits; at the
  end of the stream it reports \<^verbatim>\<open>io.EOF\<close>. A read into no room at all gives nothing, and
  the scanner gives up with \<^verbatim>\<open>io.ErrNoProgress\<close>.
\<close>

definition fill :: "Scanner \<Rightarrow> Scanner" where
  "fill s =
     (let n = min (buf_len s - buf_end s) (length (rd s))
      in if rd s = [] then s\<lparr>s_err := Some EOF\<rparr>
         else if n = 0 then s\<lparr>s_err := Some ErrNoProgress\<rparr>
         else s\<lparr>held := held s @ take n (rd s), rd := drop n (rd s)\<rparr>)"

text \<open>
  \<^verbatim>\<open>Scan\<close>: the loop runs until there is a token or an error. Each round first asks the
  split function for a token in the data held, when there is data or the reader has
  ended (\<open>split_held\<close>). The buffer sizes are far
  below the largest \<^verbatim>\<open>int\<close>, so the guard against overflow in the doubling is left out.
\<close>

definition split_held :: "Scanner \<Rightarrow> nat \<times> byte list option" where
  "split_held s =
     (if held s \<noteq> [] \<or> s_err s \<noteq> None then ScanLines (held s) (s_err s \<noteq> None)
      else (0, None))"

function Scan :: "Scanner \<Rightarrow> bool \<times> Scanner" where
  "Scan s =
     (case split_held s of
        (advance, Some tok) \<Rightarrow>
          (True, s\<lparr>token := tok, start := start s + advance, held := drop advance (held s)\<rparr>)
      | (advance, None) \<Rightarrow>
          if s_err s \<noteq> None then (False, s\<lparr>token := [], start := 0, held := []\<rparr>)
          else if buf_end (shift s) = buf_len (shift s)
          then
            (if maxTokenSize s \<le> buf_len (shift s)
             then (False, (shift s)\<lparr>token := [], s_err := Some ErrTooLong\<rparr>)
             else Scan ((fill (grow (shift s)))\<lparr>token := []\<rparr>))
          else Scan ((fill (shift s))\<lparr>token := []\<rparr>))"
  by pat_completeness auto

definition scan_measure :: "Scanner \<Rightarrow> nat" where
  "scan_measure s = 2 * length (rd s) + (if s_err s = None then 1 else 0)"

termination Scan
proof (relation "measure scan_measure")
  show "wf (measure scan_measure)"
    by simp
next
  have less: "scan_measure ((fill t)\<lparr>token := []\<rparr>) < scan_measure s"
    if "s_err t = None" and "rd t = rd s" and "s_err s = None" for s t :: Scanner
    using that by (cases "rd t") (auto simp add: scan_measure_def fill_def Let_def min_def)
  have r_shift: "rd (shift s) = rd s" and err_shift: "s_err (shift s) = s_err s" for s
    by (simp_all add: shift_def)
  have r_grow: "rd (grow s) = rd s" and err_grow: "s_err (grow s) = s_err s" for s
    by (simp_all add: grow_def Let_def)
  {
    fix s :: Scanner
    assume "\<not> s_err s \<noteq> None"
    then have "scan_measure ((fill (grow (shift s)))\<lparr>token := []\<rparr>) < scan_measure s"
      by (intro less) (simp_all add: r_shift r_grow err_shift err_grow)
    then show "((fill (grow (shift s)))\<lparr>token := []\<rparr>, s) \<in> measure scan_measure"
      by simp
  next
    fix s :: Scanner
    assume "\<not> s_err s \<noteq> None"
    then have "scan_measure ((fill (shift s))\<lparr>token := []\<rparr>) < scan_measure s"
      by (intro less) (simp_all add: r_shift err_shift)
    then show "((fill (shift s))\<lparr>token := []\<rparr>, s) \<in> measure scan_measure"
      by simp
  }
qed

declare Scan.simps [simp del]

text \<open>\<^verbatim>\<open>Err\<close> hides the end of the stream.\<close>

definition Err :: "Scanner \<Rightarrow> scan_error option" where
  "Err s = (if s_err s = Some EOF then None else s_err s)"

section \<open>JSON-RPC messages\<close>

text \<open>
  What \<^verbatim>\<open>json.Unmarshal\<close> leaves in a value of type \<^verbatim>\<open>any\<close>: \<^verbatim>\<open>nil\<close>, a \<^verbatim>\<open>bool\<close>, a
  \<^verbatim>\<open>float64\<close> for every number, a \<^verbatim>\<open>string\<close>, a slice, or a \<^verbatim>\<open>map[string]any\<close>, here the
  list of its entries.
\<close>

datatype json =
    JNull
  | JBool bool
  | JNumber float64
  | JString string
  | JArray "json list"
  | JObject "(string \<times> json) list"

text \<open>Indexing a map gives \<^verbatim>\<open>nil\<close> for a key that is not there.\<close>

definition map_index :: "(string \<times> json) list \<Rightarrow> string \<Rightarrow> json" where
  "map_index m k = (case map_of m k of Some v \<Rightarrow> v | None \<Rightarrow> JNull)"

text \<open>The type assertions \<^verbatim>\<open>v.(string)\<close>, \<^verbatim>\<open>v.(map[string]any)\<close> and \<^verbatim>\<open>v.(float64)\<close>.\<close>

fun assert_string :: "json \<Rightarrow> string \<times> bool" where
  "assert_string (JString s) = (s, True)"
| "assert_string _ = ([], False)"

fun assert_map :: "json \<Rightarrow> (string \<times> json) list \<times> bool" where
  "assert_map (JObject m) = (m, True)"
| "assert_map _ = ([], False)"

fun assert_float64 :: "json \<Rightarrow> float64 \<times> bool" where
  "assert_float64 (JNumber c) = (c, True)"
| "assert_float64 _ = (Finite 0, False)"

record Request =
  rq_JSONRPC :: string
  rq_Method :: string
  rq_Params :: "(string \<times> json) list"
  rq_ID :: json

record RPCError =
  rpc_Code :: int
  rpc_Message :: string
  rpc_Data :: json

record Response =
  rs_JSONRPC :: string
  rs_Result :: json
  rs_Error :: "RPCError option"
  rs_ID :: json

definition NewRequest :: "string \<Rightarrow> (string \<times> json) list \<Rightarrow> json \<Rightarrow> Request" where
  "NewRequest method params rid =
     \<lparr>rq_JSONRPC = ''2.0'', rq_Method = method, rq_Params = params, rq_ID = rid\<rparr>"

text \<open>
  Package \<^verbatim>\<open>encoding/json\<close> is a parameter: the encoding of a request, and the decoding
  of a line into a \<^verbatim>\<open>map[string]any\<close> and into a \<^verbatim>\<open>proto.Response\<close>, \<open>None\<close> when
  \<^verbatim>\<open>Unmarshal\<close> returns an error.
\<close>

record JSON =
  Marshal :: "Request \<Rightarrow> byte list"
  Unmarshal_map :: "byte list \<Rightarrow> (string \<times> json) list option"
  Unmarshal_Response :: "byte list \<Rightarrow> Response option"

subsection \<open>The conversion \<^verbatim>\<open>int(c)\<close> of a \<^verbatim>\<open>float64\<close>\<close>

text \<open>
  The fraction is discarded. When the result does not fit an \<^verbatim>\<open>int\<close> of 64 bits the
  conversion still succeeds, with a value that depends on the implementation: the
  parameter \<open>out_of_range\<close>.
\<close>

definition trunc :: "real \<Rightarrow> int" where
  "trunc x = (if 0 \<le> x then \<lfloor>x\<rfloor> else \<lceil>x\<rceil>)"

definition int_of_float64 :: "(float64 \<Rightarrow> int) \<Rightarrow> float64 \<Rightarrow> int" where
  "int_of_float64 out_of_range c =
     (case c of
        Finite x \<Rightarrow>
          if - (2 ^ 63) \<le> trunc x \<and> trunc x < 2 ^ 63 then trunc x else out_of_range c
      | _ \<Rightarrow> out_of_range c)"

section \<open>\<^verbatim>\<open>execSandbox\<close>\<close>

text \<open>The language switch: the command and its arguments, or none.\<close>

definition exec_command :: "ExecRequest \<Rightarrow> (string \<times> string list) option" where
  "exec_command req =
     (if Language req = ''python'' then Some (''python3'', [''-c'', Code req])
      else if Language req = ''javascript'' \<or> Language req = ''node''
      then Some (''node'', [''-e'', Code req])
      else if Language req = ''bash'' \<or> Language req = ''sh''
      then Some (''bash'', [''-c'', Code req])
      else None)"

definition exec_request :: "string \<Rightarrow> string list \<Rightarrow> Request" where
  "exec_request cmd args =
     NewRequest ''exec'' [(''cmd'', JString cmd), (''args'', JArray (map JString args))]
       (JNumber (Finite 1))"

text \<open>What the reading loop collects.\<close>

record exec_state =
  stdout :: string
  stderr :: string
  artifacts :: "ArtifactEvent list"
  exitCode :: "int option"

definition exec_state0 :: exec_state where
  "exec_state0 = \<lparr>stdout = [], stderr = [], artifacts = [], exitCode = None\<rparr>"

text \<open>
  The body of the loop for one line: go on with the next line, leave the loop, or
  report \<^verbatim>\<open>done <- nil\<close> and return.
\<close>

datatype flow = Continue | Break | Return

definition handle_line ::
  "JSON \<Rightarrow> (float64 \<Rightarrow> int) \<Rightarrow> exec_state \<Rightarrow> byte list \<Rightarrow> flow \<times> exec_state" where
  "handle_line j out_of_range st line =
     (if line = [] then (Continue, st)
      else
        (case Unmarshal_map j line of
           None \<Rightarrow> (Continue, st)
         | Some generic \<Rightarrow>
             if (case map_of generic ''id'' of Some idVal \<Rightarrow> idVal \<noteq> JNull | None \<Rightarrow> False)
             then
               (case Unmarshal_Response j line of
                  None \<Rightarrow> (Continue, st)
                | Some rsp \<Rightarrow>
                    (case rs_Error rsp of
                       Some e \<Rightarrow>
                         (Break,
                          st\<lparr>stderr := stderr st @ [CHR 0x0A] @ ''RPC Error: '' @ rpc_Message e
                                          @ [CHR 0x0A]\<rparr>)
                     | None \<Rightarrow> (Continue, st)))
             else
               (let method = fst (assert_string (map_index generic ''method''));
                    params = fst (assert_map (map_index generic ''params''))
                in
                  if method = ''stdout'' then
                    (case assert_string (map_index params ''chunk'') of
                       (c, True) \<Rightarrow> (Continue, st\<lparr>stdout := stdout st @ c\<rparr>)
                     | (c, False) \<Rightarrow> (Continue, st))
                  else if method = ''stderr'' then
                    (case assert_string (map_index params ''chunk'') of
                       (c, True) \<Rightarrow> (Continue, st\<lparr>stderr := stderr st @ c\<rparr>)
                     | (c, False) \<Rightarrow> (Continue, st))
                  else if method = ''artifact'' then
                    (Continue,
                     st\<lparr>artifacts := artifacts st @
                          [\<lparr>ae_Path = fst (assert_string (map_index params ''path'')),
                            ae_MIME = fst (assert_string (map_index params ''mime'')),
                            ae_DataBase64 = fst (assert_string (map_index params ''data_base64'')),
                            ae_URL = []\<rparr>]\<rparr>)
                  else if method = ''exit'' then
                    (case assert_float64 (map_index params ''code'') of
                       (c, True) \<Rightarrow> (Return, st\<lparr>exitCode := Some (int_of_float64 out_of_range c)\<rparr>)
                     | (c, False) \<Rightarrow> (Continue, st))
                  else if method = ''error'' then
                    (case assert_string (map_index params ''message'') of
                       (msg, True) \<Rightarrow>
                         (Continue,
                          st\<lparr>stderr := stderr st @ [CHR 0x0A] @ ''Runtime Error: '' @ msg
                                          @ [CHR 0x0A]\<rparr>)
                     | (msg, False) \<Rightarrow> (Continue, st))
                  else (Continue, st))))"

text \<open>
  After the loop the goroutine sends the scanner's error on \<^verbatim>\<open>done\<close>, or \<^verbatim>\<open>io.EOF\<close> when
  there is none.
\<close>

definition after_loop :: "Scanner \<Rightarrow> scan_error option" where
  "after_loop scanner = (case Err scanner of Some e \<Rightarrow> Some e | None \<Rightarrow> Some EOF)"

text \<open>
  The goroutine that reads the lines. Its first result is what it sends on \<^verbatim>\<open>done\<close>:
  \<open>None\<close> for \<^verbatim>\<open>nil\<close>, after an exit event.
\<close>

function exec_loop ::
  "JSON \<Rightarrow> (float64 \<Rightarrow> int) \<Rightarrow> Scanner \<Rightarrow> exec_state \<Rightarrow> scan_error option \<times> exec_state" where
  "exec_loop j out_of_range scanner st =
     (case Scan scanner of
        (True, scanner') \<Rightarrow>
          (case handle_line j out_of_range st (token scanner') of
             (Continue, st') \<Rightarrow> exec_loop j out_of_range scanner' st'
           | (Break, st') \<Rightarrow> (after_loop scanner', st')
           | (Return, st') \<Rightarrow> (None, st'))
      | (False, scanner') \<Rightarrow> (after_loop scanner', st))"
  by pat_completeness auto

termination exec_loop
proof (relation "measure (\<lambda>(j, out_of_range, scanner, st). length (held scanner) + length (rd scanner))",
    goal_cases)
  case 1
  show ?case
    by simp
next
  case (2 j out_of_range scanner st x y xa ya)
  have consumes: "length (held (snd (Scan s))) + length (rd (snd (Scan s)))
                    < length (held s) + length (rd s)" if "fst (Scan s)" for s
    using that
  proof (induction s rule: Scan.induct)
    case (1 s)
    have idx: "i < length xs" if "IndexByte xs c = Some i" for xs :: "byte list" and c i
      using that by (induction xs arbitrary: i) (auto split: if_splits)
    have same: "length (held (fill g)) + length (rd (fill g)) = length (held g) + length (rd g)" for g
      by (simp add: fill_def Let_def)
    obtain advance tok where sp: "split_held s = (advance, tok)"
      by (cases "split_held s")
    show ?case
    proof (cases tok)
      case (Some t)
      have "0 < advance \<and> advance \<le> length (held s)"
        using sp Some idx [of "held s" 10]
        by (auto simp: split_held_def ScanLines_def split: if_splits option.splits)
      then show ?thesis
        using sp Some by (subst (1 2) Scan.simps) auto
    next
      case None
      show ?thesis
      proof (cases "s_err s \<noteq> None")
        case True
        then have "\<not> fst (Scan s)"
          using sp None by (subst Scan.simps) simp
        then show ?thesis
          using "1.prems" by simp
      next
        case noerr: False
        show ?thesis
        proof (cases "buf_end (shift s) = buf_len (shift s)")
          case full: True
          show ?thesis
          proof (cases "maxTokenSize s \<le> buf_len (shift s)")
            case True
            then have "\<not> fst (Scan s)"
              using sp None noerr full by (subst Scan.simps) simp
            then show ?thesis
              using "1.prems" by simp
          next
            case False
            have eq: "Scan s = Scan ((fill (grow (shift s)))\<lparr>token := []\<rparr>)"
              using sp None noerr full False by (subst Scan.simps) simp
            have "length (held (grow (shift s))) + length (rd (grow (shift s)))
                    = length (held s) + length (rd s)"
              by (simp add: grow_def shift_def Let_def)
            then have "length (held ((fill (grow (shift s)))\<lparr>token := []\<rparr>))
                         + length (rd ((fill (grow (shift s)))\<lparr>token := []\<rparr>))
                       = length (held s) + length (rd s)"
              using same [of "grow (shift s)"] by simp
            then show ?thesis
              using "1.IH"(1) [OF sp [symmetric] None noerr full False] "1.prems"
              by (simp only: eq)
          qed
        next
          case False
          have eq: "Scan s = Scan ((fill (shift s))\<lparr>token := []\<rparr>)"
            using sp None noerr False by (subst Scan.simps) simp
          have "length (held (shift s)) + length (rd (shift s)) = length (held s) + length (rd s)"
            by (simp add: shift_def)
          then have "length (held ((fill (shift s))\<lparr>token := []\<rparr>))
                       + length (rd ((fill (shift s))\<lparr>token := []\<rparr>))
                     = length (held s) + length (rd s)"
            using same [of "shift s"] by simp
          then show ?thesis
            using "1.IH"(2) [OF sp [symmetric] None noerr False] "1.prems"
            by (simp only: eq)
        qed
      qed
    qed
  qed
  have "Scan scanner = (True, y)"
    using 2(1,2) by simp
  then show ?case
    using consumes [of scanner] by simp
qed

declare exec_loop.simps [simp del]

text \<open>
  What the handler answers once the request is sent: it reads the lines of the
  connection with a scanner whose buffer has 64 KiB and may grow to 1 MiB. \<open>sent\<close> is
  what the goroutine sent on \<^verbatim>\<open>done\<close>. The deadline of the request context is not
  modelled.
\<close>

definition read_answers ::
  "JSON \<Rightarrow> (float64 \<Rightarrow> int) \<Rightarrow> DockerStream \<Rightarrow> byte list \<Rightarrow> response" where
  "read_answers j out_of_range conn written =
     (case exec_loop j out_of_range
             (Buffer (NewScanner (stream_read conn written)) (64 * 1024) (1024 * 1024))
             exec_state0 of
        (sent, st) \<Rightarrow>
          if sent \<noteq> None \<and> sent \<noteq> Some EOF then HTTPError 500 ''stream error''
          else
            JSON_exec 200
              \<lparr>Stdout = stdout st, Stderr = stderr st, Artifacts = artifacts st,
               ExitCode = exitCode st\<rparr>)"

text \<open>
  The part of the handler after the switch: connect, send the request, read the
  answers. Writing to the connection is a parameter: \<open>Write conn p\<close> is the error that
  \<^verbatim>\<open>conn.Write(p)\<close> returns, if any.
\<close>

definition exec_rpc ::
  "JSON \<Rightarrow> (float64 \<Rightarrow> int) \<Rightarrow> (DockerStream \<Rightarrow> byte list \<Rightarrow> error option) \<Rightarrow> 'e Handler
     \<Rightarrow> 'e \<Rightarrow> string \<Rightarrow> string \<Rightarrow> string list \<Rightarrow> response \<times> 'e" where
  "exec_rpc j out_of_range Write h s cid cmd args =
     (case Connect (driver h) s cid of
        (Inl e, s1) \<Rightarrow>
          if e = ErrSandboxNotFound then (HTTPError 404 ''sandbox not found'', s1)
          else (HTTPError 500 ''failed to connect to sandbox'', s1)
      | (Inr conn, s1) \<Rightarrow>
          (case Write conn (Marshal j (exec_request cmd args) @ [10]) of
             Some e \<Rightarrow> (HTTPError 500 ''failed to send request'', s1)
           | None \<Rightarrow>
               (read_answers j out_of_range conn (Marshal j (exec_request cmd args) @ [10]), s1)))"

text \<open>The request is given as \<^verbatim>\<open>c.Bind\<close> leaves it, or \<open>None\<close> when binding failed.\<close>

definition execSandbox ::
  "JSON \<Rightarrow> (float64 \<Rightarrow> int) \<Rightarrow> (DockerStream \<Rightarrow> byte list \<Rightarrow> error option) \<Rightarrow> 'e Handler
     \<Rightarrow> 'e \<Rightarrow> string \<Rightarrow> ExecRequest option \<Rightarrow> response \<times> 'e" where
  "execSandbox j out_of_range Write h s cid bound =
     (case bound of
        None \<Rightarrow> (HTTPError 400 ''invalid request'', s)
      | Some req \<Rightarrow>
          (case exec_command req of
             None \<Rightarrow> (HTTPError 400 (''unsupported language: '' @ Language req), s)
           | Some (cmd, args) \<Rightarrow> exec_rpc j out_of_range Write h s cid cmd args))"

section \<open>\<^verbatim>\<open>interactSandbox\<close>: from the agent to the WebSocket\<close>

text \<open>
  The first goroutine of the bridge sends every line the agent writes as one message.
  Writing a message is a parameter, over a state \<open>'w\<close> of the WebSocket. The result is
  what the goroutine sends on \<^verbatim>\<open>errChan\<close>: the error of the write, or what
  \<^verbatim>\<open>scanner.Err()\<close> gives.
\<close>

function forward_lines ::
  "('w \<Rightarrow> byte list \<Rightarrow> error option \<times> 'w) \<Rightarrow> Scanner \<Rightarrow> 'w
     \<Rightarrow> (error + scan_error option) \<times> 'w" where
  "forward_lines WriteMessage scanner ws =
     (case Scan scanner of
        (True, scanner') \<Rightarrow>
          (case WriteMessage ws (token scanner') of
             (Some e, ws') \<Rightarrow> (Inl e, ws')
           | (None, ws') \<Rightarrow> forward_lines WriteMessage scanner' ws')
      | (False, scanner') \<Rightarrow> (Inr (Err scanner'), ws))"
  by pat_completeness auto

termination forward_lines
proof (relation "measure (\<lambda>(WriteMessage, scanner, ws). length (held scanner) + length (rd scanner))",
    goal_cases)
  case 1
  show ?case
    by simp
next
  case (2 WriteMessage scanner ws x y)
  have consumes: "length (held (snd (Scan s))) + length (rd (snd (Scan s)))
                    < length (held s) + length (rd s)" if "fst (Scan s)" for s
    using that
  proof (induction s rule: Scan.induct)
    case (1 s)
    have idx: "i < length xs" if "IndexByte xs c = Some i" for xs :: "byte list" and c i
      using that by (induction xs arbitrary: i) (auto split: if_splits)
    have same: "length (held (fill g)) + length (rd (fill g)) = length (held g) + length (rd g)" for g
      by (simp add: fill_def Let_def)
    obtain advance tok where sp: "split_held s = (advance, tok)"
      by (cases "split_held s")
    show ?case
    proof (cases tok)
      case (Some t)
      have "0 < advance \<and> advance \<le> length (held s)"
        using sp Some idx [of "held s" 10]
        by (auto simp: split_held_def ScanLines_def split: if_splits option.splits)
      then show ?thesis
        using sp Some by (subst (1 2) Scan.simps) auto
    next
      case None
      show ?thesis
      proof (cases "s_err s \<noteq> None")
        case True
        then have "\<not> fst (Scan s)"
          using sp None by (subst Scan.simps) simp
        then show ?thesis
          using "1.prems" by simp
      next
        case noerr: False
        show ?thesis
        proof (cases "buf_end (shift s) = buf_len (shift s)")
          case full: True
          show ?thesis
          proof (cases "maxTokenSize s \<le> buf_len (shift s)")
            case True
            then have "\<not> fst (Scan s)"
              using sp None noerr full by (subst Scan.simps) simp
            then show ?thesis
              using "1.prems" by simp
          next
            case False
            have eq: "Scan s = Scan ((fill (grow (shift s)))\<lparr>token := []\<rparr>)"
              using sp None noerr full False by (subst Scan.simps) simp
            have "length (held (grow (shift s))) + length (rd (grow (shift s)))
                    = length (held s) + length (rd s)"
              by (simp add: grow_def shift_def Let_def)
            then have "length (held ((fill (grow (shift s)))\<lparr>token := []\<rparr>))
                         + length (rd ((fill (grow (shift s)))\<lparr>token := []\<rparr>))
                       = length (held s) + length (rd s)"
              using same [of "grow (shift s)"] by simp
            then show ?thesis
              using "1.IH"(1) [OF sp [symmetric] None noerr full False] "1.prems"
              by (simp only: eq)
          qed
        next
          case False
          have eq: "Scan s = Scan ((fill (shift s))\<lparr>token := []\<rparr>)"
            using sp None noerr False by (subst Scan.simps) simp
          have "length (held (shift s)) + length (rd (shift s)) = length (held s) + length (rd s)"
            by (simp add: shift_def)
          then have "length (held ((fill (shift s))\<lparr>token := []\<rparr>))
                       + length (rd ((fill (shift s))\<lparr>token := []\<rparr>))
                     = length (held s) + length (rd s)"
            using same [of "shift s"] by simp
          then show ?thesis
            using "1.IH"(2) [OF sp [symmetric] None noerr False] "1.prems"
            by (simp only: eq)
        qed
      qed
    qed
  qed
  have "Scan scanner = (True, y)"
    using 2(1,2) by simp
  then show ?case
    using consumes [of scanner] by simp
qed

declare forward_lines.simps [simp del]

text \<open>The scanner is a new one on the connection, after \<open>written\<close> has been sent.\<close>

definition agent_to_websocket ::
  "('w \<Rightarrow> byte list \<Rightarrow> error option \<times> 'w) \<Rightarrow> DockerStream \<Rightarrow> byte list \<Rightarrow> 'w
     \<Rightarrow> (error + scan_error option) \<times> 'w" where
  "agent_to_websocket WriteMessage conn written ws =
     forward_lines WriteMessage (NewScanner (stream_read conn written)) ws"

section \<open>Sample processes and messages\<close>

text \<open>
  A process that writes \<open>out\<close> to its standard output in one frame, whatever it is
  sent.
\<close>

definition framed_agent :: "byte list \<Rightarrow> byte list \<Rightarrow> byte list" where
  "framed_agent out w =
     encode_frame
       \<lparr>stream_type = 1, reserved1 = 0, reserved2 = 0, reserved3 = 0, payload = out\<rparr>"

text \<open>
  Three exit notifications, as the bytes of their lines:
  \<^verbatim>\<open>{"method":"exit","params":{"code":3.5}}\<close>, the same with code \<^verbatim>\<open>-3.5\<close>, and the same
  with code \<^verbatim>\<open>1e19\<close>, a number above the largest \<^verbatim>\<open>int\<close>.
\<close>

definition exit_3_5 :: "byte list" where
  "exit_3_5 =
     [123, 34, 109, 101, 116, 104, 111, 100, 34, 58, 34, 101, 120, 105, 116, 34, 44, 34,
      112, 97, 114, 97, 109, 115, 34, 58, 123, 34, 99, 111, 100, 101, 34, 58, 51, 46, 53,
      125, 125]"

definition exit_minus_3_5 :: "byte list" where
  "exit_minus_3_5 =
     [123, 34, 109, 101, 116, 104, 111, 100, 34, 58, 34, 101, 120, 105, 116, 34, 44, 34,
      112, 97, 114, 97, 109, 115, 34, 58, 123, 34, 99, 111, 100, 101, 34, 58, 45, 51, 46,
      53, 125, 125]"

definition exit_1e19 :: "byte list" where
  "exit_1e19 =
     [123, 34, 109, 101, 116, 104, 111, 100, 34, 58, 34, 101, 120, 105, 116, 34, 44, 34,
      112, 97, 114, 97, 109, 115, 34, 58, 123, 34, 99, 111, 100, 101, 34, 58, 49, 101, 49,
      57, 125, 125]"

definition exit_notification :: "real \<Rightarrow> (string \<times> json) list" where
  "exit_notification c =
     [(''method'', JString ''exit''), (''params'', JObject [(''code'', JNumber (Finite c))])]"

text \<open>
  A decoder that knows these three lines, and an encoder that writes the method and
  the keys and strings of the parameters, each ended by a zero byte.
\<close>

definition sample_Unmarshal_map :: "byte list \<Rightarrow> (string \<times> json) list option" where
  "sample_Unmarshal_map line =
     (if line = exit_3_5 then Some (exit_notification (7 / 2))
      else if line = exit_minus_3_5 then Some (exit_notification (- (7 / 2)))
      else if line = exit_1e19 then Some (exit_notification (10 ^ 19))
      else None)"

fun json_strings :: "json \<Rightarrow> string list" where
  "json_strings (JString s) = [s]"
| "json_strings (JArray vs) = concat (map json_strings vs)"
| "json_strings v = []"

definition sample_Marshal :: "Request \<Rightarrow> byte list" where
  "sample_Marshal rq =
     map of_char
       (concat (map (\<lambda>s. s @ [CHR 0x00])
          (rq_Method rq # concat (map (\<lambda>(k, v). k # json_strings v) (rq_Params rq)))))"

definition sample_Unmarshal_Response :: "byte list \<Rightarrow> Response option" where
  "sample_Unmarshal_Response line = None"

definition sample_JSON :: JSON where
  "sample_JSON =
     \<lparr>Marshal = sample_Marshal, Unmarshal_map = sample_Unmarshal_map,
      Unmarshal_Response = sample_Unmarshal_Response\<rparr>"

text \<open>
  On amd64 the conversion of a \<^verbatim>\<open>float64\<close> that does not fit gives the most negative
  \<^verbatim>\<open>int\<close>.
\<close>

definition amd64_out_of_range :: "float64 \<Rightarrow> int" where
  "amd64_out_of_range c = - (2 ^ 63)"

text \<open>Two long lines of the letter x, without their newline.\<close>

definition line_64K :: "byte list" where
  "line_64K = replicate (64 * 1024) 120"

definition line_1M :: "byte list" where
  "line_1M = replicate (1024 * 1024) 120"

text \<open>A WebSocket that keeps the messages written to it.\<close>

definition ws_append :: "byte list list \<Rightarrow> byte list \<Rightarrow> error option \<times> byte list list" where
  "ws_append ws m = (None, ws @ [m])"

text \<open>A connection that takes every write, and one that takes only the bytes given.\<close>

definition Write_ok :: "DockerStream \<Rightarrow> byte list \<Rightarrow> error option" where
  "Write_ok conn p = None"

definition Write_only :: "byte list \<Rightarrow> DockerStream \<Rightarrow> byte list \<Rightarrow> error option" where
  "Write_only expected conn p =
     (if p = expected then None else Some (DockerError ''broken pipe''))"

definition python_request :: ExecRequest where
  "python_request = \<lparr>Code = ''import sys; sys.exit(3)'', Language = ''python''\<rparr>"

definition ruby_request :: ExecRequest where
  "ruby_request = \<lparr>Code = ''exit 3'', Language = ''ruby''\<rparr>"

section \<open>Properties of the demuxer\<close>

lemma ucast_byte_of_nat: "(ucast (of_nat m :: byte) :: 64 word) = of_nat (take_bit 8 m)"
  by (simp add: unsigned_of_nat)

lemma bytes_reassemble:
  assumes "n < 2 ^ 32"
  shows "push_bit 24 (take_bit 8 (drop_bit 24 n)) OR push_bit 16 (take_bit 8 (drop_bit 16 n))
           OR push_bit 8 (take_bit 8 (drop_bit 8 n)) OR take_bit 8 n = (n::nat)"
proof (rule bit_eqI)
  fix k
  have lt: "bit n k \<Longrightarrow> k < 32"
    using assms by (metis bit_take_bit_iff take_bit_nat_eq_self)
  consider "k < 8" | "8 \<le> k" "k < 16" | "16 \<le> k" "k < 24" | "24 \<le> k" "k < 32" | "32 \<le> k"
    by linarith
  then show "bit (push_bit 24 (take_bit 8 (drop_bit 24 n)) OR push_bit 16 (take_bit 8 (drop_bit 16 n))
           OR push_bit 8 (take_bit 8 (drop_bit 8 n)) OR take_bit 8 n) k = bit n k"
    using lt by cases (auto simp add: bit_simps)
qed

lemma header_word:
  assumes "n < 2 ^ 32"
  shows "(push_bit 24 (ucast (of_nat (n div 2 ^ 24) :: byte) :: 64 word)
            OR push_bit 16 (ucast (of_nat (n div 2 ^ 16) :: byte))
            OR push_bit 8 (ucast (of_nat (n div 2 ^ 8) :: byte)) OR ucast (of_nat n :: byte))
         = of_nat n"
proof -
  have "(push_bit 24 (ucast (of_nat (n div 2 ^ 24) :: byte) :: 64 word)
            OR push_bit 16 (ucast (of_nat (n div 2 ^ 16) :: byte))
            OR push_bit 8 (ucast (of_nat (n div 2 ^ 8) :: byte)) OR ucast (of_nat n :: byte))
        = of_nat (push_bit 24 (take_bit 8 (drop_bit 24 n)) OR push_bit 16 (take_bit 8 (drop_bit 16 n))
           OR push_bit 8 (take_bit 8 (drop_bit 8 n)) OR take_bit 8 n)"
    by (simp only: ucast_byte_of_nat drop_bit_eq_div [symmetric] of_nat_push_bit [symmetric]
          of_nat_or_eq [symmetric])
  then show ?thesis
    by (simp only: bytes_reassemble [OF assms])
qed

lemma sint_small:
  assumes "n < 2 ^ 32"
  shows "sint (of_nat n :: 64 word) = int n"
proof -
  from assms have "int n < 2 ^ 32"
    by (metis of_nat_less_iff of_nat_numeral of_nat_power)
  then have "- (2 ^ 63) \<le> int n \<and> int n < 2 ^ 63"
    by simp
  then show ?thesis
    by (simp add: signed_of_nat signed_take_bit_int_eq_self)
qed

lemma payloadSize_header:
  assumes "n < 2 ^ 32"
  shows "payloadSize ([t, a, b, c] @ be32 n) = int n"
  using header_word [OF assms] sint_small [OF assms]
  by (simp add: payloadSize_def be32_def)

lemma length_be32 [simp]: "length (be32 n) = 4"
  by (simp add: be32_def)

lemma ReadFull_frame:
  "ReadFull (encode_frame f @ rest) 8 =
     Some ([stream_type f, reserved1 f, reserved2 f, reserved3 f] @ be32 (length (payload f)),
           payload f @ rest)"
  by (simp add: ReadFull_def encode_frame_def)

lemma CopyN_payload: "CopyN (p @ rest) (length p) = (p, rest, False)"
  by (simp add: CopyN_def)

lemma demux_frame:
  assumes "well_formed f"
  shows "demux (encode_frame f @ rest) =
           (if stream_type f = 1 then payload f @ demux rest else demux rest)"
proof -
  let ?h = "[stream_type f, reserved1 f, reserved2 f, reserved3 f] @ be32 (length (payload f))"
  have sz: "payloadSize ?h = int (length (payload f))"
    using assms by (simp only: well_formed_def payloadSize_header)
  have h0: "?h ! 0 = stream_type f"
    by simp
  show ?thesis
    by (subst demux.simps) (simp only: ReadFull_frame sz h0 CopyN_payload nat_int
          option.case prod.case if_False of_nat_less_0_iff split: if_splits, simp)
qed

lemma demux_short: "length trailer < 8 \<Longrightarrow> demux trailer = []"
  by (subst demux.simps) (simp add: ReadFull_def)

text \<open>
  Claim C1. For every sequence of well-formed frames followed by fewer than eight
  further bytes (a short read of the header), the consumer-facing reader yields exactly
  the payloads of the frames of stream type 1, concatenated in arrival order, and then
  ends; no byte of a frame of type 2 or of any other type is in the output.
\<close>

theorem demux_yields_stdout_payloads:
  assumes "\<forall>f \<in> set fs. well_formed f" and "length trailer < 8"
  shows "demux (concat (map encode_frame fs) @ trailer) = stdout_payloads fs"
  using assms
proof (induction fs)
  case Nil
  then show ?case
    by (simp add: stdout_payloads_def demux_short)
next
  case (Cons f fs)
  then have "demux (concat (map encode_frame fs) @ trailer) = stdout_payloads fs"
    by simp
  moreover have "well_formed f"
    using Cons.prems by simp
  ultimately show ?case
    by (simp add: demux_frame stdout_payloads_def)
qed

text \<open>
  The theorem at a concrete stream: a stdout frame carrying \<open>hi\<close>, a stderr frame, a
  frame of type 3, a second stdout frame, and three stray bytes of a cut-off header.
\<close>

theorem demux_yields_stdout_payloads_witness:
  "demux ([1, 0, 0, 0, 0, 0, 0, 2, 104, 105] @ [2, 0, 0, 0, 0, 0, 0, 1, 33]
            @ [3, 0, 0, 0, 0, 0, 0, 1, 7] @ [1, 0, 0, 0, 0, 0, 0, 1, 10] @ [1, 0, 0])
     = [104, 105, 10]"
proof -
  let ?fs = "[\<lparr>stream_type = 1, reserved1 = 0, reserved2 = 0, reserved3 = 0, payload = [104, 105]\<rparr>,
              \<lparr>stream_type = 2, reserved1 = 0, reserved2 = 0, reserved3 = 0, payload = [33]\<rparr>,
              \<lparr>stream_type = 3, reserved1 = 0, reserved2 = 0, reserved3 = 0, payload = [7]\<rparr>,
              \<lparr>stream_type = 1, reserved1 = 0, reserved2 = 0, reserved3 = 0, payload = [10]\<rparr>]"
  have wf: "\<forall>f \<in> set ?fs. well_formed f"
    by (simp add: well_formed_def)
  have short: "length [1, 0, 0 :: byte] < 8"
    by simp
  show ?thesis
    using demux_yields_stdout_payloads [OF wf short]
    by (simp add: encode_frame_def be32_def stdout_payloads_def)
qed

section \<open>Properties of \<^verbatim>\<open>Validate\<close>\<close>

lemma f64_le_zero_default: "f64_le (Finite 1) (Finite 0) = False"
  by simp

text \<open>
  Claim C2. For a configuration with a non-empty image, \<^verbatim>\<open>Validate\<close> leaves the
  configuration with each unset (zero, and also negative) memory, CPU and timeout field and
  an empty working directory replaced by 512 MiB, 1.0 cores, 5 minutes and
  \<^verbatim>\<open>/workspace\<close>, and every other field as it was; on a configuration that carries
  exactly the default values it changes nothing and returns no error; and it returns an
  error wrapping \<^verbatim>\<open>ErrInvalidConfig\<close> whenever memory exceeds 8192, CPU exceeds 4.0 or the
  timeout exceeds 30 minutes.
\<close>

theorem Validate_defaults_identity_caps:
  assumes "Image c \<noteq> []"
  shows "snd (Validate c) =
           c\<lparr>MemoryMB := (if MemoryMB c \<le> 0 then 512 else MemoryMB c),
             CPUCores := (if f64_le (CPUCores c) (Finite 0) then Finite 1 else CPUCores c),
             Timeout := (if Timeout c \<le> 0 then 5 * Minute else Timeout c),
             WorkDir := (if WorkDir c = [] then ''/workspace'' else WorkDir c)\<rparr>
         \<and> (MemoryMB c = 512 \<and> CPUCores c = Finite 1 \<and> Timeout c = 5 * Minute
              \<and> WorkDir c = ''/workspace'' \<longrightarrow> Validate c = (None, c))
         \<and> (MemoryMB c > 8192 \<or> f64_gt (CPUCores c) (Finite 4) \<or> Timeout c > 30 * Minute
              \<longrightarrow> (\<exists>e. fst (Validate c) = Some e \<and> errors_Is e ErrInvalidConfig))"
proof (intro conjI impI)
  show "snd (Validate c) =
           c\<lparr>MemoryMB := (if MemoryMB c \<le> 0 then 512 else MemoryMB c),
             CPUCores := (if f64_le (CPUCores c) (Finite 0) then Finite 1 else CPUCores c),
             Timeout := (if Timeout c \<le> 0 then 5 * Minute else Timeout c),
             WorkDir := (if WorkDir c = [] then ''/workspace'' else WorkDir c)\<rparr>"
    using assms by (simp add: Validate_def Let_def)
next
  assume "MemoryMB c = 512 \<and> CPUCores c = Finite 1 \<and> Timeout c = 5 * Minute
            \<and> WorkDir c = ''/workspace''"
  then show "Validate c = (None, c)"
    using assms by (simp add: Validate_def Let_def Minute_def Second_def)
next
  assume over: "MemoryMB c > 8192 \<or> f64_gt (CPUCores c) (Finite 4) \<or> Timeout c > 30 * Minute"
  have gt4: "f64_gt (CPUCores c) (Finite 4) \<Longrightarrow> \<not> f64_le (CPUCores c) (Finite 0)"
    by (cases "CPUCores c") auto
  have t30: "Timeout c > 30 * Minute \<Longrightarrow> \<not> Timeout c \<le> 0"
    by (simp add: Minute_def Second_def)
  from over gt4 t30 show "\<exists>e. fst (Validate c) = Some e \<and> errors_Is e ErrInvalidConfig"
    using assms by (auto simp add: Validate_def Let_def)
qed

text \<open>
  The theorem at three configurations: the zero value with an image, the same with the
  defaults already in place, and one asking for 9000 MiB.
\<close>

theorem Validate_defaults_identity_caps_witness:
  "snd (Validate (image_only ''python:3.10-slim'')) =
     (image_only ''python:3.10-slim'')
       \<lparr>MemoryMB := 512, CPUCores := Finite 1, Timeout := 300000000000, WorkDir := ''/workspace''\<rparr>
   \<and> Validate ((image_only ''python:3.10-slim'')
         \<lparr>MemoryMB := 512, CPUCores := Finite 1, Timeout := 300000000000, WorkDir := ''/workspace''\<rparr>)
       = (None, (image_only ''python:3.10-slim'')
         \<lparr>MemoryMB := 512, CPUCores := Finite 1, Timeout := 300000000000, WorkDir := ''/workspace''\<rparr>)
   \<and> (\<exists>e. fst (Validate ((image_only ''python:3.10-slim'')\<lparr>MemoryMB := 9000\<rparr>)) = Some e
          \<and> errors_Is e ErrInvalidConfig)"
proof -
  let ?z = "image_only ''python:3.10-slim''"
  let ?d = "?z\<lparr>MemoryMB := 512, CPUCores := Finite 1, Timeout := 300000000000, WorkDir := ''/workspace''\<rparr>"
  let ?b = "?z\<lparr>MemoryMB := 9000\<rparr>"
  have iz: "Image ?z \<noteq> []" and idf: "Image ?d \<noteq> []" and ib: "Image ?b \<noteq> []"
    by (simp_all add: image_only_def)
  have "snd (Validate ?z) = ?d"
    using Validate_defaults_identity_caps [OF iz]
    by (simp add: image_only_def Minute_def Second_def)
  moreover have "Validate ?d = (None, ?d)"
    using Validate_defaults_identity_caps [OF idf]
    by (simp add: image_only_def Minute_def Second_def)
  moreover have "\<exists>e. fst (Validate ?b) = Some e \<and> errors_Is e ErrInvalidConfig"
    using Validate_defaults_identity_caps [OF ib]
    by (simp add: image_only_def)
  ultimately show ?thesis
    by blast
qed

section \<open>Properties of \<^verbatim>\<open>Stop\<close>, \<^verbatim>\<open>Connect\<close> and \<^verbatim>\<open>List\<close>\<close>

lemma lookup_box1: "lookup engine0 ''box1'' = Some box1"
  by (simp add: lookup_def engine0_def box1_def other_def)

lemma lookup_other: "lookup engine0 ''other'' = Some other"
  by (simp add: lookup_def engine0_def box1_def other_def)

lemma lookup_ghost: "lookup engine0 ''ghost'' = None"
  by (simp add: lookup_def engine0_def box1_def other_def)

lemma lookup_box1_removed: "lookup engine1 ''box1'' = None"
  by (simp add: lookup_def engine1_def other_def)

lemma remove_box1:
  "ContainerRemove (cli (sim_driver silent_agent)) engine0 ''box1''
     \<lparr>Force = True, RemoveVolumes = True\<rparr> = (None, engine1)"
  by (simp add: sim_driver_def sim_client_def sim_ContainerRemove_def lookup_box1)
     (simp add: engine0_def engine1_def box1_def other_def)

lemma remove_box1_again:
  "ContainerRemove (cli (sim_driver silent_agent)) engine1 ''box1''
     \<lparr>Force = True, RemoveVolumes = True\<rparr> = (Some (no_such_container ''box1''), engine1)"
  by (simp add: sim_driver_def sim_client_def sim_ContainerRemove_def lookup_box1_removed)

text \<open>
  Claim C3 as stated fails: on the in-memory engine the first \<^verbatim>\<open>Stop\<close> of the running
  sandbox \<open>box1\<close> succeeds and the second returns \<^verbatim>\<open>ErrSandboxNotFound\<close>.
\<close>

theorem Stop_twice_counterexample:
  "fst (Stop (sim_driver silent_agent) engine0 ''box1'') = None
   \<and> fst (Stop (sim_driver silent_agent)
             (snd (Stop (sim_driver silent_agent) engine0 ''box1'')) ''box1'')
       = Some ErrSandboxNotFound"
  by (simp add: Stop_def remove_box1 remove_box1_again no_such_container_def)

text \<open>
  Claim C3, amended. When the backend removes the container at the first \<^verbatim>\<open>Stop\<close> and
  reports it as not found at the second, the first \<^verbatim>\<open>Stop\<close> returns success and the
  second returns \<^verbatim>\<open>ErrSandboxNotFound\<close>, leaving the backend as the failed removal left
  it; \<^verbatim>\<open>DELETE /sandbox/:id\<close> answers 204 the first time and 404 the second.
\<close>

theorem Stop_twice_success_then_not_found:
  assumes "ContainerRemove (cli d) s cid \<lparr>Force = True, RemoveVolumes = True\<rparr> = (None, s1)"
    and "ContainerRemove (cli d) s1 cid \<lparr>Force = True, RemoveVolumes = True\<rparr> = (Some err, s2)"
    and "IsErrNotFound err"
    and "cid \<noteq> []"
  shows "Stop d s cid = (None, s1)
         \<and> Stop d s1 cid = (Some ErrSandboxNotFound, s2)
         \<and> stopSandbox \<lparr>driver = d, apiKey = k\<rparr> s cid = (NoContent 204, s1)
         \<and> stopSandbox \<lparr>driver = d, apiKey = k\<rparr> s1 cid = (JSON_error 404 ''sandbox not found'', s2)"
  using assms by (simp add: Stop_def stopSandbox_def)

theorem Stop_twice_success_then_not_found_witness:
  "Stop (sim_driver silent_agent) engine0 ''box1'' = (None, engine1)
   \<and> Stop (sim_driver silent_agent) engine1 ''box1'' = (Some ErrSandboxNotFound, engine1)
   \<and> stopSandbox \<lparr>driver = sim_driver silent_agent, apiKey = []\<rparr> engine0 ''box1''
       = (NoContent 204, engine1)
   \<and> stopSandbox \<lparr>driver = sim_driver silent_agent, apiKey = []\<rparr> engine1 ''box1''
       = (JSON_error 404 ''sandbox not found'', engine1)"
proof -
  have nf: "IsErrNotFound (no_such_container ''box1'')"
    by (simp add: no_such_container_def)
  have ne: "''box1'' \<noteq> []"
    by simp
  show ?thesis
    by (rule Stop_twice_success_then_not_found [OF remove_box1 remove_box1_again nf ne])
qed

lemma inspect_box1:
  "ContainerInspect (cli (sim_driver silent_agent)) engine0 ''box1'' =
     (Inr \<lparr>cj_ID = ''box1'', cj_Created = [],
           cj_State = \<lparr>Running = True, Dead = False, OOMKilled = False\<rparr>,
           cj_IPAddress = [], cj_WorkingDir = ''/workspace''\<rparr>, engine0)"
  by (simp add: sim_driver_def sim_client_def sim_ContainerInspect_def lookup_box1)
     (simp add: box1_def)

lemma inspect_other:
  "ContainerInspect (cli (sim_driver silent_agent)) engine0 ''other'' =
     (Inr \<lparr>cj_ID = ''other'', cj_Created = [],
           cj_State = \<lparr>Running = False, Dead = False, OOMKilled = False\<rparr>,
           cj_IPAddress = [], cj_WorkingDir = ''/''\<rparr>, engine0)"
  by (simp add: sim_driver_def sim_client_def sim_ContainerInspect_def lookup_other)
     (simp add: other_def)

lemma inspect_ghost:
  "ContainerInspect (cli (sim_driver silent_agent)) engine0 ''ghost'' =
     (Inl (no_such_container ''ghost''), engine0)"
  by (simp add: sim_driver_def sim_client_def sim_ContainerInspect_def lookup_ghost)

text \<open>
  Claim C4 as stated fails: for a sandbox that does not exist at all, \<^verbatim>\<open>Connect\<close> fails
  with \<^verbatim>\<open>ErrSandboxNotFound\<close>, which is not \<^verbatim>\<open>ErrSandboxNotRunning\<close>.
\<close>

theorem Connect_missing_counterexample:
  "fst (Connect (sim_driver silent_agent) engine0 ''ghost'') = Inl ErrSandboxNotFound
   \<and> ErrSandboxNotFound \<noteq> ErrSandboxNotRunning"
  by (simp add: Connect_def inspect_ghost no_such_container_def)

text \<open>
  Claim C4, amended. For a sandbox that exists and is not in state ready (its container
  is not running), \<^verbatim>\<open>Connect\<close> fails with \<^verbatim>\<open>ErrSandboxNotRunning\<close>; for a sandbox that
  does not exist, \<^verbatim>\<open>Connect\<close> fails with \<^verbatim>\<open>ErrSandboxNotFound\<close>; and \<^verbatim>\<open>Connect\<close> succeeds
  only on a sandbox whose container is running.
\<close>

theorem Connect_not_running_not_found:
  "(ContainerInspect (cli d) s cid = (Inr info, s1) \<and> info_state (cj_State info) \<noteq> StateReady
      \<longrightarrow> Connect d s cid = (Inl ErrSandboxNotRunning, s1))
   \<and> (ContainerInspect (cli d) s cid = (Inl err, s1) \<and> IsErrNotFound err
      \<longrightarrow> Connect d s cid = (Inl ErrSandboxNotFound, s1))
   \<and> (Connect d s cid = (Inr ds, s')
      \<longrightarrow> (\<exists>info s1. ContainerInspect (cli d) s cid = (Inr info, s1)
                      \<and> Running (cj_State info)))"
proof (intro conjI impI)
  assume "ContainerInspect (cli d) s cid = (Inr info, s1) \<and> info_state (cj_State info) \<noteq> StateReady"
  then show "Connect d s cid = (Inl ErrSandboxNotRunning, s1)"
    by (auto simp add: Connect_def info_state_def split: if_splits)
next
  assume "ContainerInspect (cli d) s cid = (Inl err, s1) \<and> IsErrNotFound err"
  then show "Connect d s cid = (Inl ErrSandboxNotFound, s1)"
    by (simp add: Connect_def)
next
  assume ok: "Connect d s cid = (Inr ds, s')"
  obtain r s1 where insp: "ContainerInspect (cli d) s cid = (r, s1)"
    by (cases "ContainerInspect (cli d) s cid")
  show "\<exists>info s1. ContainerInspect (cli d) s cid = (Inr info, s1) \<and> Running (cj_State info)"
  proof (cases r)
    case (Inl e)
    with ok insp show ?thesis
      by (simp add: Connect_def split: if_splits)
  next
    case (Inr info)
    with ok insp have "Running (cj_State info)"
      by (simp add: Connect_def split: if_splits)
    with insp Inr show ?thesis
      by blast
  qed
qed

text \<open>
  The theorem on the in-memory engine: the stopped container \<open>other\<close>, the missing
  \<open>ghost\<close>, and the running \<open>box1\<close>, on which \<^verbatim>\<open>Connect\<close> succeeds.
\<close>

theorem Connect_not_running_not_found_witness:
  "Connect (sim_driver silent_agent) engine0 ''other'' = (Inl ErrSandboxNotRunning, engine0)
   \<and> Connect (sim_driver silent_agent) engine0 ''ghost'' = (Inl ErrSandboxNotFound, engine0)
   \<and> Connect (sim_driver silent_agent) engine0 ''box1''
       = (Inr (NewDockerStream \<lparr>process = silent_agent\<rparr>), engine0)"
proof -
  let ?stopped = "\<lparr>cj_ID = ''other'', cj_Created = [],
           cj_State = \<lparr>Running = False, Dead = False, OOMKilled = False\<rparr>,
           cj_IPAddress = [], cj_WorkingDir = ''/''\<rparr>"
  have ns: "info_state (cj_State ?stopped) \<noteq> StateReady"
    by (simp add: info_state_def StateReady_def StateStopped_def)
  have nf: "IsErrNotFound (no_such_container ''ghost'')"
    by (simp add: no_such_container_def)
  have a: "Connect (sim_driver silent_agent) engine0 ''other'' = (Inl ErrSandboxNotRunning, engine0)"
    using Connect_not_running_not_found
      [where d = "sim_driver silent_agent" and s = engine0 and cid = "''other''"
         and info = ?stopped and ?s1.0 = engine0]
      inspect_other ns
    by blast
  have b: "Connect (sim_driver silent_agent) engine0 ''ghost'' = (Inl ErrSandboxNotFound, engine0)"
    using Connect_not_running_not_found
      [where d = "sim_driver silent_agent" and s = engine0 and cid = "''ghost''"
         and err = "no_such_container ''ghost''" and ?s1.0 = engine0]
      inspect_ghost nf
    by blast
  have c: "Connect (sim_driver silent_agent) engine0 ''box1''
       = (Inr (NewDockerStream \<lparr>process = silent_agent\<rparr>), engine0)"
    by (simp add: Connect_def inspect_box1)
       (simp add: sim_driver_def sim_client_def sim_ContainerExecCreate_def
          sim_ContainerExecAttach_def lookup_box1, simp add: box1_def)
  from a b c show ?thesis
    by blast
qed

text \<open>
  Claim C10. \<^verbatim>\<open>List\<close> does not depend on its \<^verbatim>\<open>states\<close> argument; it asks the backend
  for all containers, stopped ones included, with no label filter, and returns one entry,
  with the container's identifier, for every container of the answer, in the same order;
  \<^verbatim>\<open>GET /sandbox\<close> answers with exactly these entries.
\<close>

theorem List_ignores_states_and_label:
  "List d s states = List d s states'
   \<and> (ContainerList (cli d) s \<lparr>lo_All = True, lo_Filters = []\<rparr> = (Inr cs, s1)
      \<longrightarrow> List d s states = (Inr (map list_entry cs), s1)
          \<and> map si_ID (map list_entry cs) = map cs_ID cs
          \<and> listSandboxes \<lparr>driver = d, apiKey = k\<rparr> s = (JSON_sandboxes 200 (map list_entry cs), s1))"
  by (simp add: List_def listSandboxes_def list_entry_def)

text \<open>
  On the in-memory engine, asked for the sandboxes in state ready only, \<^verbatim>\<open>List\<close> returns
  both the driver's running \<open>box1\<close> and the stopped, unlabelled \<open>other\<close>.
\<close>

theorem List_ignores_states_and_label_witness:
  "List (sim_driver silent_agent) engine0 (Some [StateReady])
     = (Inr (map list_entry [summary box1, summary other]), engine0)
   \<and> List (sim_driver silent_agent) engine0 (Some [StateReady])
     = List (sim_driver silent_agent) engine0 None
   \<and> map si_ID (map list_entry [summary box1, summary other]) = [''box1'', ''other'']
   \<and> map si_State (map list_entry [summary box1, summary other]) = [''ready'', ''stopped'']
   \<and> cs_Labels (summary other) ManagedLabel = None"
proof -
  have l: "ContainerList (cli (sim_driver silent_agent)) engine0 \<lparr>lo_All = True, lo_Filters = []\<rparr>
             = (Inr [summary box1, summary other], engine0)"
    by (simp add: sim_driver_def sim_client_def sim_ContainerList_def engine0_def)
  note t = List_ignores_states_and_label
      [where d = "sim_driver silent_agent" and s = engine0 and states = "Some [StateReady]"
         and states' = None and cs = "[summary box1, summary other]" and ?s1.0 = engine0]
  from t l have a: "List (sim_driver silent_agent) engine0 (Some [StateReady])
     = (Inr (map list_entry [summary box1, summary other]), engine0)"
    by blast
  from t have b: "List (sim_driver silent_agent) engine0 (Some [StateReady])
     = List (sim_driver silent_agent) engine0 None"
    by blast
  have c: "map si_ID (map list_entry [summary box1, summary other]) = [''box1'', ''other'']"
    by (simp add: list_entry_def summary_def box1_def other_def)
  have d: "map si_State (map list_entry [summary box1, summary other]) = [''ready'', ''stopped'']"
    by (simp add: list_entry_def summary_def box1_def other_def StateReady_def StateStopped_def)
  have e: "cs_Labels (summary other) ManagedLabel = None"
    by (simp add: summary_def other_def)
  from a b c d e show ?thesis
    by blast
qed

section \<open>Properties of \<^verbatim>\<open>Create\<close> and \<^verbatim>\<open>createSandbox\<close>\<close>

lemma Validate_NetworkPolicy:
  "Validate (c\<lparr>NetworkPolicy := p\<rparr>) = (fst (Validate c), (snd (Validate c))\<lparr>NetworkPolicy := p\<rparr>)"
  by (simp add: Validate_def Let_def)

lemma Validate_EnableNetworking: "EnableNetworking (snd (Validate c)) = EnableNetworking c"
  by (simp add: Validate_def Let_def)

lemma container_config_NetworkPolicy:
  "container_config (c\<lparr>NetworkPolicy := p\<rparr>) = container_config c"
  by (simp add: container_config_def)

lemma host_config_NetworkPolicy: "host_config d (c\<lparr>NetworkPolicy := p\<rparr>) = host_config d c"
  by (simp add: host_config_def)

lemma Create_NetworkPolicy: "Create d s (c\<lparr>NetworkPolicy := p\<rparr>) = Create d s c"
proof (cases "Validate c")
  case (Pair r c')
  then show ?thesis
    by (cases r)
       (simp_all add: Create_def Validate_NetworkPolicy container_config_NetworkPolicy
          host_config_NetworkPolicy cong: prod.case_cong option.case_cong sum.case_cong)
qed

lemma request_config_NetworkPolicy:
  "request_config (req\<lparr>req_NetworkPolicy := p\<rparr>) = (request_config req)\<lparr>NetworkPolicy := p\<rparr>"
  by (simp add: request_config_def Let_def)

section \<open>File injection at creation\<close>

lemma decode_hi: "DecodeString ''aGk='' = Some [104, 105]"
  by (simp add: DecodeString_def b64_value_def is_newline_def quantum_bytes_def quantum_value_def)

lemma decode_bad: "DecodeString ''!!!'' = None"
  by (simp add: DecodeString_def b64_value_def is_newline_def)

lemma join_hello: "Join ''/workspace'' ''hello.txt'' = ''/workspace/hello.txt''"
  by (simp add: Join_def Clean_def IsAbs_def)

lemma dir_base:
  "Dir ''/workspace/hello.txt'' = ''/workspace''" "Base ''/workspace/hello.txt'' = ''hello.txt''"
  "Dir ''/nope/x.txt'' = ''/nope''" "Base ''/nope/x.txt'' = ''x.txt''"
  by (simp_all add: Dir_def Base_def Clean_def IsAbs_def strip_trailing_slashes_def)

lemma Validate_default_config: "Validate (default_config ctx) = (None, default_config ctx)"
  by (simp add: Validate_def default_config_def Let_def Minute_def Second_def)

lemma ensure_image_engine0:
  "ensure_image (sim_driver silent_agent) engine0 ''python:3.10-slim'' = (None, engine0)"
  by (simp add: ensure_image_def sim_driver_def sim_client_def sim_ImageInspectWithRaw_def engine0_def)

lemma create_box2:
  "ContainerCreate (cli (sim_driver silent_agent)) engine0 (container_config (default_config ctx))
     (host_config (sim_driver silent_agent) (default_config ctx)) = (Inr ''box2'', engine2 ctx [])"
  by (simp add: sim_driver_def sim_client_def sim_ContainerCreate_def engine0_def engine2_def
        box2_def container_config_def default_config_def)

lemma lookup_box2: "lookup (engine2 ctx files) ''box2'' = Some (box2 ctx files)"
  by (simp add: lookup_def engine2_def box1_def other_def box2_def)

lemma put_hello:
  "PutFile (sim_driver silent_agent) (engine2 ctx files) ''box2'' ''/workspace/hello.txt'' data
     = (None, engine2 ctx ((''/workspace/hello.txt'', data) # files))"
  by (simp add: PutFile_def resolvePath_def IsAbs_def dir_base sim_driver_def sim_client_def
        sim_CopyToContainer_def lookup_box2 join_hello)
     (simp add: box2_def replace_container_def engine2_def box1_def other_def)

lemma put_nope:
  "PutFile (sim_driver silent_agent) (engine2 ctx files) ''box2'' ''/nope/x.txt'' data
     = (Some (Errorf ''docker copy failed: ''
                (DockerNotFound ''Could not find the file /nope in container box2'') []),
        engine2 ctx files)"
  by (simp add: PutFile_def resolvePath_def IsAbs_def dir_base sim_driver_def sim_client_def
        sim_CopyToContainer_def lookup_box2)
     (simp add: box2_def)

lemma stop_box2: "Stop (sim_driver silent_agent) (engine2 ctx files) ''box2'' = (None, engine3)"
  by (simp add: Stop_def sim_driver_def sim_client_def sim_ContainerRemove_def lookup_box2)
     (simp add: engine2_def engine3_def box1_def other_def box2_def)


lemma inject_context_write_files:
  "inject_context d workDir cid s files =
     (case write_files d cid s (decoded_files workDir files) of
        (None, s') \<Rightarrow> (None, s')
      | (Some (f, err), s') \<Rightarrow>
          (Some (Errorf (''failed to inject file '' @ Path f @ '': '') err []), snd (Stop d s' cid)))"
proof (induction files arbitrary: s)
  case Nil
  then show ?case by (simp add: decoded_files_def)
next
  case (Cons f fs)
  show ?case
  proof (cases "DecodeString (ContentBase64 f)")
    case None
    then show ?thesis
      using Cons.IH [of s] by (simp add: decoded_files_def)
  next
    case (Some data)
    note dec = this
    obtain r s1 where put: "PutFile d s cid (target_path workDir f) data = (r, s1)"
      by (cases "PutFile d s cid (target_path workDir f) data")
    show ?thesis
    proof (cases r)
      case None
      with dec put show ?thesis
        using Cons.IH [of s1] by (simp add: decoded_files_def target_path_def)
    next
      case (Some err)
      with dec put show ?thesis
        by (simp add: decoded_files_def target_path_def)
    qed
  qed
qed



text \<open>
  Claim C5 as stated fails: an injection whose \<^verbatim>\<open>content_base64\<close> is not valid base64 is
  skipped. \<^verbatim>\<open>Create\<close> returns the new identifier, the container is still there, and the
  file is not in it.
\<close>

theorem Create_bad_base64_counterexample:
  "DecodeString (ContentBase64 bad_txt) = None
   \<and> fst (Create (sim_driver silent_agent) engine0 (default_config [bad_txt])) = Inr ''box2''
   \<and> lookup (snd (Create (sim_driver silent_agent) engine0 (default_config [bad_txt]))) ''box2''
       = Some (box2 [bad_txt] [])
   \<and> file_at (snd (Create (sim_driver silent_agent) engine0 (default_config [bad_txt])))
        ''box2'' ''/workspace/bad.txt'' = None"
proof -
  have c: "Create (sim_driver silent_agent) engine0 (default_config [bad_txt])
             = (Inr ''box2'', engine2 [bad_txt] [])"
    by (simp add: Create_def Validate_default_config)
       (simp add: default_config_def ensure_image_engine0
          create_box2 [unfolded default_config_def] bad_txt_def decode_bad)
  show ?thesis
    by (simp add: c lookup_box2 file_at_def)
       (simp add: bad_txt_def decode_bad box2_def)
qed

text \<open>
  Claim C5, amended. Once the container is created, \<^verbatim>\<open>Create\<close> writes the injections
  whose \<^verbatim>\<open>content_base64\<close> decodes, in order, and skips the others. If \<^verbatim>\<open>PutFile\<close> rejects
  one of them, \<^verbatim>\<open>Create\<close> stops the container and returns an error that names the file;
  otherwise every injection that decodes has been written when \<^verbatim>\<open>Create\<close> returns the
  identifier.
\<close>

theorem Create_injections:
  assumes "Validate cfg0 = (None, cfg)"
    and "ensure_image d s (Image cfg) = (None, s1)"
    and "ContainerCreate (cli d) s1 (container_config cfg) (host_config d cfg) = (Inr cid, s2)"
  shows "Create d s cfg0 =
           (case write_files d cid s2 (decoded_files (WorkDir cfg) (Context cfg)) of
              (None, s3) \<Rightarrow> (Inr cid, s3)
            | (Some (f, err), s3) \<Rightarrow>
                (Inl (Errorf (''failed to inject file '' @ Path f @ '': '') err []),
                 snd (Stop d s3 cid)))"
  using assms
  by (simp add: Create_def inject_context_write_files split: prod.splits option.splits)

text \<open>
  On the in-memory engine: with \<open>hello.txt\<close> and an undecodable \<open>bad.txt\<close>, \<^verbatim>\<open>Create\<close>
  succeeds and the container holds \<open>hello.txt\<close> only; with \<open>hello.txt\<close> and a file for a
  directory that does not exist, \<^verbatim>\<open>Create\<close> fails and the container is gone.
\<close>

theorem Create_injections_witness:
  "Create (sim_driver silent_agent) engine0 (default_config [hello_txt, bad_txt])
     = (Inr ''box2'', engine2 [hello_txt, bad_txt] [(''/workspace/hello.txt'', [104, 105])])
   \<and> Create (sim_driver silent_agent) engine0 (default_config [hello_txt, nope_txt])
     = (Inl (Errorf ''failed to inject file /nope/x.txt: ''
              (Errorf ''docker copy failed: ''
                 (DockerNotFound ''Could not find the file /nope in container box2'') []) []),
        engine3)"
proof -
  have img: "\<And>ctx. ensure_image (sim_driver silent_agent) engine0 (Image (default_config ctx))
                 = (None, engine0)"
    by (simp add: default_config_def ensure_image_engine0)
  have wd: "\<And>ctx. WorkDir (default_config ctx) = ''/workspace''"
    and cx: "\<And>ctx. Context (default_config ctx) = ctx"
    by (simp_all add: default_config_def)
  have a: "decoded_files ''/workspace'' [hello_txt, bad_txt]
             = [(hello_txt, ''/workspace/hello.txt'', [104, 105])]"
    by (simp add: decoded_files_def hello_txt_def bad_txt_def decode_hi decode_bad
          target_path_def IsAbs_def join_hello)
  have b: "decoded_files ''/workspace'' [hello_txt, nope_txt]
             = [(hello_txt, ''/workspace/hello.txt'', [104, 105]),
                (nope_txt, ''/nope/x.txt'', [104, 105])]"
    by (simp add: decoded_files_def hello_txt_def nope_txt_def decode_hi
          target_path_def IsAbs_def join_hello)
  have "Create (sim_driver silent_agent) engine0 (default_config [hello_txt, bad_txt])
     = (Inr ''box2'', engine2 [hello_txt, bad_txt] [(''/workspace/hello.txt'', [104, 105])])"
    using Create_injections [OF Validate_default_config img create_box2, of "[hello_txt, bad_txt]"]
    by (simp add: wd cx a put_hello)
  moreover have "Create (sim_driver silent_agent) engine0 (default_config [hello_txt, nope_txt])
     = (Inl (Errorf ''failed to inject file /nope/x.txt: ''
              (Errorf ''docker copy failed: ''
                 (DockerNotFound ''Could not find the file /nope in container box2'') []) []),
        engine3)"
    using Create_injections [OF Validate_default_config img create_box2, of "[hello_txt, nope_txt]"]
    by (simp add: wd cx b put_hello put_nope stop_box2)
       (simp add: nope_txt_def)
  ultimately show ?thesis
    by blast
qed


section \<open>The network mode of the containers \<^verbatim>\<open>createSandbox\<close> creates\<close>

lemma cli_network_none:
  "ImageInspectWithRaw (cli (d\<lparr>cli := network_none (cli d)\<rparr>)) = ImageInspectWithRaw (cli d)"
  "ImagePull (cli (d\<lparr>cli := network_none (cli d)\<rparr>)) = ImagePull (cli d)"
  "ContainerStart (cli (d\<lparr>cli := network_none (cli d)\<rparr>)) = ContainerStart (cli d)"
  "ContainerRemove (cli (d\<lparr>cli := network_none (cli d)\<rparr>)) = ContainerRemove (cli d)"
  "ContainerInspect (cli (d\<lparr>cli := network_none (cli d)\<rparr>)) = ContainerInspect (cli d)"
  "CopyToContainer (cli (d\<lparr>cli := network_none (cli d)\<rparr>)) = CopyToContainer (cli d)"
  by (simp_all add: network_none_def)

lemma Start_network_none: "Start (d\<lparr>cli := network_none (cli d)\<rparr>) = Start d"
  by (rule ext)+ (unfold Start_def cli_network_none, rule refl)

lemma Stop_network_none: "Stop (d\<lparr>cli := network_none (cli d)\<rparr>) = Stop d"
  by (rule ext)+ (unfold Stop_def cli_network_none, rule refl)

lemma ensure_image_network_none:
  "ensure_image (d\<lparr>cli := network_none (cli d)\<rparr>) = ensure_image d"
  by (rule ext)+ (unfold ensure_image_def cli_network_none, rule refl)

lemma PutFile_network_none: "PutFile (d\<lparr>cli := network_none (cli d)\<rparr>) = PutFile d"
  by (rule ext)+ (unfold PutFile_def resolvePath_def cli_network_none, rule refl)

lemma inject_context_network_none:
  "inject_context (d\<lparr>cli := network_none (cli d)\<rparr>) workDir cid s files
     = inject_context d workDir cid s files"
proof (induction files arbitrary: s)
  case Nil
  show ?case
    by simp
next
  case (Cons f fs)
  show ?case
    unfolding inject_context.simps PutFile_network_none Stop_network_none Cons.IH
    by (rule refl)
qed

lemma ContainerCreate_network_none:
  assumes "\<not> EnableNetworking cfg"
  shows "ContainerCreate (cli (d\<lparr>cli := network_none (cli d)\<rparr>)) s (container_config cfg)
           (host_config (d\<lparr>cli := network_none (cli d)\<rparr>) cfg)
         = ContainerCreate (cli d) s (container_config cfg) (host_config d cfg)"
  using assms by (simp add: network_none_def host_config_def)

lemma Create_network_none:
  assumes "\<not> EnableNetworking cfg0"
  shows "Create (d\<lparr>cli := network_none (cli d)\<rparr>) s cfg0 = Create d s cfg0"
proof -
  let ?d = "d\<lparr>cli := network_none (cli d)\<rparr>"
  obtain v cfg where val: "Validate cfg0 = (v, cfg)"
    by (cases "Validate cfg0")
  have en: "\<not> EnableNetworking cfg"
    using Validate_EnableNetworking [of cfg0] val assms by simp
  show ?thesis
  proof (cases v)
    case (Some e)
    then show ?thesis
      by (simp add: Create_def val)
  next
    case None
    obtain i s1 where img: "ensure_image d s (Image cfg) = (i, s1)"
      by (cases "ensure_image d s (Image cfg)")
    show ?thesis
    proof (cases i)
      case (Some e)
      then show ?thesis
        using None by (simp add: Create_def val ensure_image_network_none img)
    next
      case noerr: None
      obtain c s2 where cr:
        "ContainerCreate (cli d) s1 (container_config cfg) (host_config d cfg) = (c, s2)"
        by (cases "ContainerCreate (cli d) s1 (container_config cfg) (host_config d cfg)")
      have cr': "ContainerCreate (cli ?d) s1 (container_config cfg) (host_config ?d cfg) = (c, s2)"
        using ContainerCreate_network_none [OF en, of d s1] cr by simp
      have a: "Create ?d s cfg0 =
                 (case c of
                    Inl e \<Rightarrow> (Inl (Errorf ''failed to create container: '' e []), s2)
                  | Inr cid \<Rightarrow>
                      (case inject_context d (WorkDir cfg) cid s2 (Context cfg) of
                         (Some e, s3) \<Rightarrow> (Inl e, s3)
                       | (None, s3) \<Rightarrow> (Inr cid, s3)))"
        unfolding Create_def
        by (simp only: val None noerr ensure_image_network_none img cr' prod.case option.case)
           (simp add: inject_context_network_none split: sum.splits)
      have b: "Create d s cfg0 =
                 (case c of
                    Inl e \<Rightarrow> (Inl (Errorf ''failed to create container: '' e []), s2)
                  | Inr cid \<Rightarrow>
                      (case inject_context d (WorkDir cfg) cid s2 (Context cfg) of
                         (Some e, s3) \<Rightarrow> (Inl e, s3)
                       | (None, s3) \<Rightarrow> (Inr cid, s3)))"
        unfolding Create_def
        by (simp only: val None noerr img cr prod.case option.case)
      show ?thesis
        by (simp only: a b)
    qed
  qed
qed

lemma request_config_EnableNetworking: "\<not> EnableNetworking (request_config req)"
  by (simp add: request_config_def Let_def)

lemma createSandbox_isolated:
  "createSandbox (isolated h) s bound = createSandbox h s bound"
proof (cases bound)
  case None
  then show ?thesis
    by (simp add: createSandbox_def)
next
  case (Some req)
  have d: "driver (isolated h) = (driver h)\<lparr>cli := network_none (cli (driver h))\<rparr>"
    by (simp add: isolated_def)
  show ?thesis
    unfolding createSandbox_def d Start_network_none Stop_network_none
      Create_network_none [OF request_config_EnableNetworking]
    by (rule refl)
qed

text \<open>
  Claim C9. Every container that \<^verbatim>\<open>POST /v1/sandbox\<close> creates is asked for with network
  mode \<^verbatim>\<open>none\<close>, whatever the request's \<^verbatim>\<open>network_policy\<close> is: with any client, the
  handler answers the same and leaves the same backend state when the client is replaced
  by one that overwrites the network mode of every \<^verbatim>\<open>ContainerCreate\<close> with \<^verbatim>\<open>none\<close>. Two
  requests that differ only in \<^verbatim>\<open>network_policy\<close> give the same response and the same
  backend state. The configuration the handler builds never has \<^verbatim>\<open>EnableNetworking\<close> set,
  and the host configuration made from it has network mode \<^verbatim>\<open>none\<close> and does not depend
  on \<^verbatim>\<open>network_policy\<close>.
\<close>

theorem createSandbox_network_none:
  "createSandbox (isolated h) s (Some req) = createSandbox h s (Some req)
   \<and> createSandbox h s (Some (req\<lparr>req_NetworkPolicy := p\<rparr>)) = createSandbox h s (Some req)
   \<and> EnableNetworking (request_config req) = False
   \<and> hc_NetworkMode (host_config d (snd (Validate (request_config req)))) = ''none''
   \<and> host_config d (snd (Validate (request_config (req\<lparr>req_NetworkPolicy := p\<rparr>))))
       = host_config d (snd (Validate (request_config req)))"
proof (intro conjI)
  show "createSandbox (isolated h) s (Some req) = createSandbox h s (Some req)"
    by (rule createSandbox_isolated)
  show "createSandbox h s (Some (req\<lparr>req_NetworkPolicy := p\<rparr>)) = createSandbox h s (Some req)"
    by (simp add: createSandbox_def request_config_NetworkPolicy Create_NetworkPolicy)
  show en: "EnableNetworking (request_config req) = False"
    by (simp add: request_config_def Let_def)
  then show "hc_NetworkMode (host_config d (snd (Validate (request_config req)))) = ''none''"
    by (simp add: host_config_def Validate_EnableNetworking)
  show "host_config d (snd (Validate (request_config (req\<lparr>req_NetworkPolicy := p\<rparr>))))
       = host_config d (snd (Validate (request_config req)))"
    by (simp add: request_config_NetworkPolicy Validate_NetworkPolicy host_config_NetworkPolicy)
qed

text \<open>
  On the in-memory engine, for a request whose \<^verbatim>\<open>network_policy\<close> asks for the Internet:
  the sandbox is created and started, and its container was created with network mode
  \<^verbatim>\<open>none\<close>, under the given client and under the one that overwrites the mode.
\<close>

theorem createSandbox_network_none_witness:
  "EnableInternet (req_NetworkPolicy open_request)
   \<and> fst (createSandbox (sim_handler silent_agent) engine0 (Some open_request))
       = JSON_created 201 \<lparr>SandboxID = ''box2'', Status = ''ready''\<rparr>
   \<and> network_mode_of (snd (createSandbox (sim_handler silent_agent) engine0 (Some open_request)))
        ''box2'' = Some ''none''
   \<and> createSandbox (isolated (sim_handler silent_agent)) engine0 (Some open_request)
       = createSandbox (sim_handler silent_agent) engine0 (Some open_request)
   \<and> network_mode_of
        (snd (createSandbox (isolated (sim_handler silent_agent)) engine0 (Some open_request)))
        ''box2'' = Some ''none''"
proof -
  let ?p = "\<lparr>EnableInternet = True, AllowDomains = [''example.com'']\<rparr>"
  let ?cfg = "(default_config [])\<lparr>NetworkPolicy := ?p\<rparr>"
  let ?started = "replace_container (engine2 [] []) ((box2 [] [])\<lparr>sc_Running := True\<rparr>)"
  have val: "Validate (request_config open_request) = (None, ?cfg)"
    by (simp add: request_config_def open_request_def template_image_def int64_def
          Validate_def default_config_def Let_def Minute_def Second_def)
  have img: "ensure_image (sim_driver silent_agent) engine0 (Image ?cfg) = (None, engine0)"
    by (simp add: default_config_def ensure_image_engine0)
  have cr: "ContainerCreate (cli (sim_driver silent_agent)) engine0 (container_config ?cfg)
              (host_config (sim_driver silent_agent) ?cfg) = (Inr ''box2'', engine2 [] [])"
    by (simp only: container_config_NetworkPolicy host_config_NetworkPolicy create_box2)
  have ctx: "Context ?cfg = []"
    by (simp add: default_config_def)
  have create: "Create (sim_driver silent_agent) engine0 (request_config open_request)
                  = (Inr ''box2'', engine2 [] [])"
    unfolding Create_def
    by (simp only: val img cr ctx prod.case option.case sum.case inject_context.simps)
  have start: "Start (sim_driver silent_agent) (engine2 [] []) ''box2'' = (None, ?started)"
    by (simp add: Start_def sim_driver_def sim_client_def sim_ContainerStart_def lookup_box2)
  have run: "createSandbox (sim_handler silent_agent) engine0 (Some open_request)
               = (JSON_created 201 \<lparr>SandboxID = ''box2'', Status = ''ready''\<rparr>, ?started)"
    by (simp add: createSandbox_def sim_handler_def create start)
  have mode: "network_mode_of ?started ''box2'' = Some ''none''"
    by (simp add: network_mode_of_def lookup_def replace_container_def engine2_def box1_def
          other_def box2_def host_config_def default_config_def)
  have same: "createSandbox (isolated (sim_handler silent_agent)) engine0 (Some open_request)
                = createSandbox (sim_handler silent_agent) engine0 (Some open_request)"
    using createSandbox_network_none [of "sim_handler silent_agent" engine0 open_request]
    by blast
  have "EnableInternet (req_NetworkPolicy open_request)"
    by (simp add: open_request_def)
  then show ?thesis
    by (simp only: same run mode fst_conv snd_conv simp_thms)
qed

section \<open>Properties of the line scanner\<close>

lemma IndexByte_None: "IndexByte xs c = None \<longleftrightarrow> c \<notin> set xs"
  by (induction xs) auto

lemma fill_reads:
  assumes "rd g \<noteq> []" and "buf_end g < buf_len g"
  shows "held (fill g) @ rd (fill g) = held g @ rd g"
    and "length (rd (fill g)) < length (rd g)"
    and "start (fill g) = start g"
    and "s_err (fill g) = s_err g"
    and "buf_len (fill g) = buf_len g"
    and "maxTokenSize (fill g) = maxTokenSize g"
    and "start (fill g) + length (held (fill g)) \<le> buf_len g"
proof -
  obtain b bs where rg: "rd g = b # bs"
    using assms(1) by (cases "rd g") auto
  have n: "min (buf_len g - buf_end g) (length (rd g)) \<noteq> 0"
    using assms(2) rg by simp
  have f: "fill g = g\<lparr>held := held g @ take (min (buf_len g - buf_end g) (length (rd g))) (rd g),
                       rd := drop (min (buf_len g - buf_end g) (length (rd g))) (rd g)\<rparr>"
    by (simp only: fill_def Let_def assms(1) n if_False)
  show "held (fill g) @ rd (fill g) = held g @ rd g"
    by (simp add: f)
  show "length (rd (fill g)) < length (rd g)"
    using assms(2) rg by (simp add: f)
  show "start (fill g) = start g" "s_err (fill g) = s_err g" "buf_len (fill g) = buf_len g"
    "maxTokenSize (fill g) = maxTokenSize g"
    by (simp_all add: f)
  show "start (fill g) + length (held (fill g)) \<le> buf_len g"
    using assms(2) by (simp add: f buf_end_def)
qed

text \<open>
  A first line that, without its newline, is as long as the largest token or longer is
  not delivered: \<^verbatim>\<open>Scan\<close> fails with \<^verbatim>\<open>ErrTooLong\<close>.
\<close>

lemma Scan_too_long:
  assumes "start s = 0" and "s_err s = None"
    and "length (held s) \<le> buf_len s" and "buf_len s \<le> maxTokenSize s"
    and "0 < maxTokenSize s"
    and "held s @ rd s = line @ 10 # rest" and "10 \<notin> set line"
    and "maxTokenSize s \<le> length line"
  shows "fst (Scan s) = False \<and> s_err (snd (Scan s)) = Some ErrTooLong"
  using assms
proof (induction "length (rd s)" arbitrary: s rule: less_induct)
  case less
  have len: "length (held s) \<le> length line"
    using less.prems by simp
  have "held s = take (length (held s)) (held s @ rd s)"
    by simp
  also have "\<dots> = take (length (held s)) line"
    using len less.prems(6) by simp
  finally have "set (held s) \<subseteq> set line"
    by (metis set_take_subset)
  then have no_nl: "IndexByte (held s) 10 = None"
    using less.prems(7) by (auto simp: IndexByte_None)
  have split: "split_held s = (0, None)"
    using less.prems(2) no_nl by (simp add: split_held_def ScanLines_def)
  have sh: "shift s = s"
    using less.prems(1) by (simp add: shift_def)
  have rne: "rd s \<noteq> []"
  proof
    assume "rd s = []"
    then have "length (held s) = Suc (length line + length rest)"
      using less.prems(6) by (metis append_Nil2 length_append length_Cons add_Suc_right)
    then show False
      using len by simp
  qed
  show ?case
  proof (cases "buf_end s = buf_len s")
    case full: True
    show ?thesis
    proof (cases "maxTokenSize s \<le> buf_len s")
      case True
      then have "Scan s = (False, s\<lparr>token := [], s_err := Some ErrTooLong\<rparr>)"
        using full less.prems(2) by (subst Scan.simps) (simp add: split sh)
      then show ?thesis
        by simp
    next
      case False
      define g where "g = grow s"
      have g: "rd g = rd s" "held g = held s" "start g = 0" "s_err g = None"
        "maxTokenSize g = maxTokenSize s" "buf_len s < buf_len g" "buf_len g \<le> maxTokenSize s"
        using False less.prems(2,5)
        by (auto simp: g_def grow_def Let_def startBufSize_def min_def)
      have room: "buf_end g < buf_len g"
        using g less.prems(3) by (simp add: buf_end_def)
      have rg: "rd g \<noteq> []"
        using rne g by simp
      define s' where "s' = (fill g)\<lparr>token := []\<rparr>"
      have eq: "Scan s = Scan s'"
        using full False less.prems(2)
        by (subst Scan.simps) (simp add: split sh s'_def g_def)
      have "fst (Scan s') = False \<and> s_err (snd (Scan s')) = Some ErrTooLong"
      proof (rule less.hyps)
        show "length (rd s') < length (rd s)"
          using fill_reads(2) [OF rg room] g by (simp add: s'_def)
        show "start s' = 0" "s_err s' = None"
          using fill_reads(3,4) [OF rg room] g by (simp_all add: s'_def)
        show "length (held s') \<le> buf_len s'"
          using fill_reads(3,5,7) [OF rg room] g by (simp add: s'_def)
        show "buf_len s' \<le> maxTokenSize s'" "0 < maxTokenSize s'" "maxTokenSize s' \<le> length line"
          using fill_reads(5,6) [OF rg room] g less.prems(5,8) by (simp_all add: s'_def)
        show "held s' @ rd s' = line @ 10 # rest"
          using fill_reads(1) [OF rg room] g less.prems(6) by (simp add: s'_def)
        show "10 \<notin> set line"
          by (rule less.prems(7))
      qed
      then show ?thesis
        by (simp add: eq)
    qed
  next
    case False
    then have room: "buf_end s < buf_len s"
      using less.prems(1,3) by (simp add: buf_end_def)
    define s' where "s' = (fill s)\<lparr>token := []\<rparr>"
    have eq: "Scan s = Scan s'"
      using False less.prems(2)
      by (subst Scan.simps) (simp add: split sh s'_def)
    have "fst (Scan s') = False \<and> s_err (snd (Scan s')) = Some ErrTooLong"
    proof (rule less.hyps)
      show "length (rd s') < length (rd s)"
        using fill_reads(2) [OF rne room] by (simp add: s'_def)
      show "start s' = 0" "s_err s' = None"
        using fill_reads(3,4) [OF rne room] less.prems(1,2) by (simp_all add: s'_def)
      show "length (held s') \<le> buf_len s'"
        using fill_reads(3,5,7) [OF rne room] less.prems(1) by (simp add: s'_def)
      show "buf_len s' \<le> maxTokenSize s'" "0 < maxTokenSize s'" "maxTokenSize s' \<le> length line"
        using fill_reads(5,6) [OF rne room] less.prems(4,5,8) by (simp_all add: s'_def)
      show "held s' @ rd s' = line @ 10 # rest"
        using fill_reads(1) [OF rne room] less.prems(6) by (simp add: s'_def)
      show "10 \<notin> set line"
        by (rule less.prems(7))
    qed
    then show ?thesis
      by (simp add: eq)
  qed
qed

lemma IndexByte_first:
  "c \<notin> set xs \<Longrightarrow> IndexByte (xs @ c # ys) c = Some (length xs)"
  by (induction xs) auto

text \<open>
  A first line that fits the buffer with its newline, and does not end in a carriage
  return, is delivered as it is.
\<close>

lemma Scan_first_line:
  assumes "10 \<notin> set line" and "length line < buf_len s" and "line = [] \<or> last line \<noteq> 13"
    and "start s = 0" and "held s = []" and "s_err s = None" and "rd s = line @ 10 # rest"
  shows "Scan s =
           (True, s\<lparr>rd := drop (min (buf_len s) (length (rd s))) (rd s), token := line,
                    start := length line + 1,
                    held := drop (length line + 1) (take (min (buf_len s) (length (rd s))) (rd s))\<rparr>)"
proof -
  let ?n = "min (buf_len s) (length (rd s))"
  let ?s1 = "s\<lparr>held := take ?n (rd s), rd := drop ?n (rd s), token := []\<rparr>"
  have sh: "shift s = s"
    using assms(4) by (simp add: shift_def)
  have n: "length line < ?n"
    using assms(2,7) by simp
  have f: "(fill s)\<lparr>token := []\<rparr> = ?s1"
    using assms(2,5,7) assms(4) by (simp add: fill_def buf_end_def Let_def)
  have one: "Scan s = Scan ?s1"
    using assms(2,4,5,6)
    by (subst Scan.simps) (simp add: split_held_def sh buf_end_def f)
  have tk: "take ?n (rd s) = line @ 10 # take (?n - Suc (length line)) rest"
    using n assms(7) by (simp add: take_Cons' less_imp_le_nat)
  have ix: "IndexByte (take ?n (rd s)) 10 = Some (length line)"
    by (simp only: tk IndexByte_first [OF assms(1)])
  have cr: "dropCR line = line"
    using assms(3) by (auto simp: dropCR_def)
  have tl: "take (min (length line) ?n) (rd s) = line"
    using n assms(7) by (simp add: min_absorb1)
  have ne: "0 < buf_len s" "rd s \<noteq> []"
    using assms(2,7) by auto
  have sp: "split_held ?s1 = (length line + 1, Some line)"
    using assms(6) ne by (simp add: split_held_def ScanLines_def ix tl cr)
  show ?thesis
    using assms(4) by (subst one, subst Scan.simps) (simp add: sp)
qed

lemma demux_framed: "length out < 2 ^ 32 \<Longrightarrow> demux (framed_agent out w) = out"
  using demux_frame
    [of "\<lparr>stream_type = 1, reserved1 = 0, reserved2 = 0, reserved3 = 0, payload = out\<rparr>" "[]"]
    demux_short [of "[]"]
  by (simp add: framed_agent_def well_formed_def)

lemma Connect_box1:
  "Connect (sim_driver agent) engine0 ''box1''
     = (Inr (NewDockerStream \<lparr>process = agent\<rparr>), engine0)"
  by (simp add: Connect_def sim_driver_def sim_client_def sim_ContainerInspect_def
        sim_ContainerExecCreate_def sim_ContainerExecAttach_def lookup_box1)
     (simp add: box1_def)

lemma stream_read_framed:
  "length out < 2 ^ 32 \<Longrightarrow> stream_read (NewDockerStream \<lparr>process = framed_agent out\<rparr>) w = out"
  by (simp add: stream_read_def NewDockerStream_def demux_framed)

section \<open>Long lines\<close>

lemma Scan_too_long_result:
  assumes "start s = 0" and "s_err s = None"
    and "length (held s) \<le> buf_len s" and "buf_len s \<le> maxTokenSize s"
    and "0 < maxTokenSize s"
    and "held s @ rd s = line @ 10 # rest" and "10 \<notin> set line"
    and "maxTokenSize s \<le> length line"
  shows "\<exists>s'. Scan s = (False, s') \<and> Err s' = Some ErrTooLong"
  using Scan_too_long [OF assms] by (cases "Scan s") (simp add: Err_def)

lemma forward_lines_too_long:
  assumes "10 \<notin> set line" and "64 * 1024 \<le> length line"
  shows "forward_lines WriteMessage (NewScanner (line @ 10 # rest)) ws
           = (Inr (Some ErrTooLong), ws)"
proof -
  obtain s' where "Scan (NewScanner (line @ 10 # rest)) = (False, s')"
    and "Err s' = Some ErrTooLong"
    using Scan_too_long_result [of "NewScanner (line @ 10 # rest)" line rest] assms
    by (auto simp: NewScanner_def MaxScanTokenSize_def)
  then show ?thesis
    by (subst forward_lines.simps) simp
qed

lemma exec_loop_too_long:
  assumes "10 \<notin> set line" and "1024 * 1024 \<le> length line"
  shows "exec_loop j out_of_range
           (Buffer (NewScanner (line @ 10 # rest)) (64 * 1024) (1024 * 1024)) st
           = (Some ErrTooLong, st)"
proof -
  let ?s = "Buffer (NewScanner (line @ 10 # rest)) (64 * 1024) (1024 * 1024)"
  obtain s' where "Scan ?s = (False, s')" and "Err s' = Some ErrTooLong"
    using Scan_too_long_result [of ?s line rest] assms
    by (auto simp: NewScanner_def Buffer_def)
  then show ?thesis
    by (subst exec_loop.simps) (simp add: after_loop_def)
qed

text \<open>
  Claim C8, which the code does not meet. A line is not delivered when, without its
  newline, it has 64 KiB or more on the interactive bridge, whose scanner keeps the
  default limit, or 1 MiB or more on the exec endpoint, whose buffer must hold the
  newline too: the bridge's goroutine ends with \<^verbatim>\<open>bufio.ErrTooLong\<close> and nothing written
  to the WebSocket, and the exec endpoint answers 500.
\<close>

theorem long_lines_rejected:
  assumes "10 \<notin> set line" and "stream_read conn written = line @ 10 # rest"
  shows "(64 * 1024 \<le> length line \<longrightarrow>
            agent_to_websocket WriteMessage conn written ws = (Inr (Some ErrTooLong), ws))
       \<and> (1024 * 1024 \<le> length line \<longrightarrow>
            read_answers j out_of_range conn written = HTTPError 500 ''stream error'')"
proof (intro conjI impI)
  assume "64 * 1024 \<le> length line"
  then show "agent_to_websocket WriteMessage conn written ws = (Inr (Some ErrTooLong), ws)"
    unfolding agent_to_websocket_def assms(2)
    by (rule forward_lines_too_long [OF assms(1)])
next
  assume "1024 * 1024 \<le> length line"
  then have "exec_loop j out_of_range
               (Buffer (NewScanner (line @ 10 # rest)) (64 * 1024) (1024 * 1024)) exec_state0
             = (Some ErrTooLong, exec_state0)"
    by (rule exec_loop_too_long [OF assms(1)])
  then show "read_answers j out_of_range conn written = HTTPError 500 ''stream error''"
    unfolding read_answers_def assms(2) by simp
qed

lemma length_line_64K: "length line_64K = 64 * 1024"
  by (simp add: line_64K_def)

lemma length_line_1M: "length line_1M = 1024 * 1024"
  by (simp add: line_1M_def)

lemma set_line_64K: "10 \<notin> set line_64K"
  by (simp add: line_64K_def)

lemma set_line_1M: "10 \<notin> set line_1M"
  by (simp add: line_1M_def)

lemma Scan_held_line:
  assumes "held s = line @ 10 # others" and "10 \<notin> set line" and "line = [] \<or> last line \<noteq> 13"
  shows "Scan s = (True, s\<lparr>token := line, start := start s + (length line + 1), held := others\<rparr>)"
proof -
  have cr: "dropCR line = line"
    using assms(3) by (auto simp: dropCR_def)
  have sp: "split_held s = (length line + 1, Some line)"
    by (simp add: split_held_def ScanLines_def assms(1) IndexByte_first [OF assms(2)] cr)
  show ?thesis
    by (subst Scan.simps) (simp add: sp assms(1))
qed

lemma Scan_new_line:
  assumes "10 \<notin> set line" and "length line < 4096" and "line = [] \<or> last line \<noteq> 13"
  shows "Scan (NewScanner (line @ [10]))
           = (True, \<lparr>rd = [], maxTokenSize = 64 * 1024, token = line, buf_len = 4096,
                     start = length line + 1, held = [], s_err = None\<rparr>)"
proof -
  let ?s1 = "\<lparr>rd = [], maxTokenSize = 64 * 1024, token = [], buf_len = 4096, start = 0,
              held = line @ [10], s_err = None\<rparr>"
  have "Scan (NewScanner (line @ [10])) = Scan ?s1"
    using assms(2)
    by (subst Scan.simps)
       (simp add: NewScanner_def split_held_def shift_def buf_end_def grow_def fill_def Let_def
          startBufSize_def MaxScanTokenSize_def)
  also have "\<dots> = (True, ?s1\<lparr>token := line, start := start ?s1 + (length line + 1), held := []\<rparr>)"
    by (rule Scan_held_line [OF _ assms(1,3)]) simp
  finally show ?thesis
    by simp
qed

lemma Scan_at_end:
  assumes "held s = []" and "rd s = []" and "s_err s = None" and "start s < buf_len s"
  shows "\<exists>s'. Scan s = (False, s') \<and> Err s' = None"
proof -
  let ?t = "(shift s)\<lparr>s_err := Some EOF, token := []\<rparr>"
  have room: "buf_end (shift s) \<noteq> buf_len (shift s)"
    using assms(1,4) by (auto simp: shift_def buf_end_def)
  have f: "(fill (shift s))\<lparr>token := []\<rparr> = ?t"
    using assms(2) by (simp add: fill_def shift_def Let_def)
  have one: "Scan s = Scan ?t"
    using assms(1,3) room by (subst Scan.simps) (simp add: split_held_def f)
  have two: "Scan ?t = (False, ?t\<lparr>token := [], start := 0, held := []\<rparr>)"
    using assms(1)
    by (subst Scan.simps) (simp add: split_held_def ScanLines_def shift_def)
  show ?thesis
    by (simp add: one two Err_def)
qed

text \<open>A stream of one short line goes to the WebSocket, and the goroutine ends without error.\<close>

lemma forward_lines_short_line:
  assumes "10 \<notin> set line" and "length line < 4095" and "line = [] \<or> last line \<noteq> 13"
  shows "forward_lines ws_append (NewScanner (line @ [10])) ws = (Inr None, ws @ [line])"
proof -
  let ?s2 = "\<lparr>rd = [], maxTokenSize = 64 * 1024, token = line, buf_len = 4096,
              start = length line + 1, held = [], s_err = None\<rparr>"
  obtain s' where end_: "Scan ?s2 = (False, s')" "Err s' = None"
    using Scan_at_end [of ?s2] assms(2) by auto
  have lt: "length line < 4096"
    using assms(2) by simp
  have rest: "forward_lines ws_append ?s2 (ws @ [line]) = (Inr None, ws @ [line])"
    by (subst forward_lines.simps, subst end_(1)) (simp add: end_(2))
  show ?thesis
    by (subst forward_lines.simps, subst Scan_new_line [OF assms(1) lt assms(3)])
       (simp only: prod.case bool.case Scanner.select_convs ws_append_def option.case rest)
qed

text \<open>
  On the in-memory engine: an agent that writes 65536 bytes and a newline on the bridge,
  and one that writes 1048576 bytes and a newline on the exec endpoint. A short line
  does reach the WebSocket.
\<close>

theorem long_lines_rejected_witness:
  "agent_to_websocket ws_append
     (NewDockerStream \<lparr>process = framed_agent (line_64K @ [10])\<rparr>) [] []
     = (Inr (Some ErrTooLong), [])
   \<and> execSandbox sample_JSON amd64_out_of_range Write_ok
       (sim_handler (framed_agent (line_1M @ [10]))) engine0 ''box1'' (Some python_request)
     = (HTTPError 500 ''stream error'', engine0)
   \<and> agent_to_websocket ws_append
       (NewDockerStream \<lparr>process = framed_agent (exit_3_5 @ [10])\<rparr>) [] []
     = (Inr None, [exit_3_5])"
proof -
  let ?c64 = "NewDockerStream \<lparr>process = framed_agent (line_64K @ [10])\<rparr>"
  let ?c1M = "NewDockerStream \<lparr>process = framed_agent (line_1M @ [10])\<rparr>"
  have r64: "stream_read ?c64 [] = line_64K @ 10 # []"
    by (rule stream_read_framed) (simp add: length_line_64K)
  let ?w = "Marshal sample_JSON (exec_request ''python3'' [''-c'', Code python_request]) @ [10]"
  have r1M: "stream_read ?c1M ?w = line_1M @ 10 # []"
    by (rule stream_read_framed) (simp add: length_line_1M)
  have a: "agent_to_websocket ws_append ?c64 [] [] = (Inr (Some ErrTooLong), [])"
    using long_lines_rejected
      [OF set_line_64K r64, where WriteMessage = ws_append and ws = "[]"
         and j = sample_JSON and out_of_range = amd64_out_of_range]
    by (simp add: length_line_64K)
  have b: "read_answers sample_JSON amd64_out_of_range ?c1M ?w = HTTPError 500 ''stream error''"
    using long_lines_rejected
      [OF set_line_1M r1M, where WriteMessage = ws_append and ws = "[]"
         and j = sample_JSON and out_of_range = amd64_out_of_range]
    by (simp add: length_line_1M)
  have "execSandbox sample_JSON amd64_out_of_range Write_ok
          (sim_handler (framed_agent (line_1M @ [10]))) engine0 ''box1'' (Some python_request)
        = (HTTPError 500 ''stream error'', engine0)"
    unfolding execSandbox_def exec_rpc_def
    by (simp add: exec_command_def python_request_def sim_handler_def Connect_box1 Write_ok_def
          b [unfolded python_request_def, simplified])
  moreover have "agent_to_websocket ws_append
                   (NewDockerStream \<lparr>process = framed_agent (exit_3_5 @ [10])\<rparr>) [] []
                 = (Inr None, [exit_3_5])"
  proof -
    have "stream_read (NewDockerStream \<lparr>process = framed_agent (exit_3_5 @ [10])\<rparr>) []
            = exit_3_5 @ [10]"
      by (rule stream_read_framed) (simp add: exit_3_5_def)
    moreover have "forward_lines ws_append (NewScanner (exit_3_5 @ [10])) [] = (Inr None, [] @ [exit_3_5])"
      by (rule forward_lines_short_line) (simp_all add: exit_3_5_def)
    ultimately show ?thesis
      by (simp add: agent_to_websocket_def)
  qed
  ultimately show ?thesis
    using a by blast
qed

section \<open>The exit code\<close>

lemma int_of_float64_in_range:
  assumes "- (2 ^ 63) - 1 < x" and "x < 2 ^ 63"
  shows "int_of_float64 out_of_range (Finite x) = (if 0 \<le> x then \<lfloor>x\<rfloor> else \<lceil>x\<rceil>)"
proof (cases "0 \<le> x")
  case True
  have "\<lfloor>x\<rfloor> < 2 ^ 63"
    using assms(2) by (simp add: floor_less_iff)
  moreover have "0 \<le> \<lfloor>x\<rfloor>"
    using True by simp
  ultimately show ?thesis
    using True by (simp add: int_of_float64_def trunc_def)
next
  case False
  have "- (2 ^ 63) \<le> \<lceil>x\<rceil>"
    using assms(1) by (simp add: le_ceiling_iff)
  moreover have "\<lceil>x\<rceil> \<le> 0"
    using False by (simp add: ceiling_le_iff)
  ultimately show ?thesis
    using False by (simp add: int_of_float64_def trunc_def)
qed

lemma int_of_float64_out_of_range:
  assumes "x \<le> - (2 ^ 63) - 1 \<or> 2 ^ 63 \<le> x"
  shows "int_of_float64 out_of_range (Finite x) = out_of_range (Finite x)"
proof -
  have "\<not> (- (2 ^ 63) \<le> trunc x \<and> trunc x < 2 ^ 63)"
  proof (cases "0 \<le> x")
    case True
    then have "2 ^ 63 \<le> x"
      using assms by auto
    then have "2 ^ 63 \<le> \<lfloor>x\<rfloor>"
      by (simp add: le_floor_iff)
    then show ?thesis
      using True by (simp add: trunc_def)
  next
    case False
    then have "x \<le> - (2 ^ 63) - 1"
      using assms by auto
    then have "\<lceil>x\<rceil> \<le> - (2 ^ 63) - 1"
      by (simp add: ceiling_le_iff)
    then show ?thesis
      using False by (simp add: trunc_def)
  qed
  then show ?thesis
    by (auto simp add: int_of_float64_def)
qed

lemma handle_line_exit:
  assumes "line \<noteq> []" and "Unmarshal_map j line = Some generic"
    and "map_of generic ''id'' = None \<or> map_of generic ''id'' = Some JNull"
    and "map_index generic ''method'' = JString ''exit''"
    and "map_index generic ''params'' = JObject params"
    and "map_index params ''code'' = JNumber c"
  shows "handle_line j out_of_range st line
           = (Return, st\<lparr>exitCode := Some (int_of_float64 out_of_range c)\<rparr>)"
  using assms by (auto simp: handle_line_def Let_def)

lemma Scan_sample_line:
  assumes "10 \<notin> set line" and "length line < 64 * 1024" and "line = [] \<or> last line \<noteq> 13"
  shows "Scan (Buffer (NewScanner (line @ [10])) (64 * 1024) (1024 * 1024))
           = (True, \<lparr>rd = [], maxTokenSize = 1024 * 1024, token = line, buf_len = 64 * 1024,
                     start = length line + 1, held = [], s_err = None\<rparr>)"
  using Scan_first_line
    [of line "Buffer (NewScanner (line @ [10])) (64 * 1024) (1024 * 1024)" "[]"] assms
  by (simp add: Buffer_def NewScanner_def)

lemma sample_lines:
  "10 \<notin> set exit_3_5" "length exit_3_5 < 64 * 1024" "exit_3_5 = [] \<or> last exit_3_5 \<noteq> 13"
  "10 \<notin> set exit_minus_3_5" "length exit_minus_3_5 < 64 * 1024"
  "exit_minus_3_5 = [] \<or> last exit_minus_3_5 \<noteq> 13"
  "10 \<notin> set exit_1e19" "length exit_1e19 < 64 * 1024" "exit_1e19 = [] \<or> last exit_1e19 \<noteq> 13"
  by (simp_all add: exit_3_5_def exit_minus_3_5_def exit_1e19_def)

lemma sample_decoding:
  "Unmarshal_map sample_JSON exit_3_5 = Some (exit_notification (7 / 2))"
  "Unmarshal_map sample_JSON exit_minus_3_5 = Some (exit_notification (- (7 / 2)))"
  "Unmarshal_map sample_JSON exit_1e19 = Some (exit_notification (10 ^ 19))"
  by (simp_all add: sample_JSON_def sample_Unmarshal_map_def)
     (simp_all add: exit_3_5_def exit_minus_3_5_def exit_1e19_def)

lemma exit_notification_fields:
  "map_of (exit_notification x) ''id'' = None"
  "map_index (exit_notification x) ''method'' = JString ''exit''"
  "map_index (exit_notification x) ''params'' = JObject [(''code'', JNumber (Finite x))]"
  "map_index [(''code'', JNumber (Finite x))] ''code'' = JNumber (Finite x)"
  by (simp_all add: exit_notification_def map_index_def)

lemma exec_loop_exit:
  assumes "Scan scanner = (True, scanner')" and "token scanner' \<noteq> []"
    and "Unmarshal_map j (token scanner') = Some generic"
    and "map_of generic ''id'' = None \<or> map_of generic ''id'' = Some JNull"
    and "map_index generic ''method'' = JString ''exit''"
    and "map_index generic ''params'' = JObject params"
    and "map_index params ''code'' = JNumber c"
  shows "exec_loop j out_of_range scanner st
           = (None, st\<lparr>exitCode := Some (int_of_float64 out_of_range c)\<rparr>)"
  by (subst exec_loop.simps) (simp add: assms(1) handle_line_exit [OF assms(2-7)])

lemma read_answers_exit:
  assumes "exec_loop j out_of_range
             (Buffer (NewScanner (stream_read conn written)) (64 * 1024) (1024 * 1024)) exec_state0
           = (None, exec_state0\<lparr>exitCode := Some n\<rparr>)"
  shows "read_answers j out_of_range conn written
           = JSON_exec 200 \<lparr>Stdout = [], Stderr = [], Artifacts = [], ExitCode = Some n\<rparr>"
  unfolding read_answers_def assms by (simp add: exec_state0_def)

lemma execSandbox_python_box1:
  "execSandbox j out_of_range Write_ok (sim_handler agent) engine0 ''box1'' (Some python_request)
     = (read_answers j out_of_range (NewDockerStream \<lparr>process = agent\<rparr>)
          (Marshal j (exec_request ''python3'' [''-c'', Code python_request]) @ [10]), engine0)"
  unfolding execSandbox_def exec_rpc_def
  by (simp add: exec_command_def python_request_def sim_handler_def Connect_box1 Write_ok_def)

lemma exec_loop_sample:
  assumes "10 \<notin> set line" and "length line < 64 * 1024" and "line = [] \<or> last line \<noteq> 13"
    and "line \<noteq> []" and "Unmarshal_map j line = Some (exit_notification x)"
  shows "exec_loop j out_of_range
           (Buffer (NewScanner (line @ [10])) (64 * 1024) (1024 * 1024)) exec_state0
         = (None, exec_state0\<lparr>exitCode := Some (int_of_float64 out_of_range (Finite x))\<rparr>)"
proof -
  let ?s' = "\<lparr>rd = [], maxTokenSize = 1024 * 1024, token = line, buf_len = 64 * 1024,
              start = length line + 1, held = [], s_err = None\<rparr>"
  have tok: "token ?s' = line"
    by simp
  show ?thesis
  proof (rule exec_loop_exit [where scanner' = ?s' and generic = "exit_notification x"
          and params = "[(''code'', JNumber (Finite x))]"])
    show "Scan (Buffer (NewScanner (line @ [10])) (64 * 1024) (1024 * 1024)) = (True, ?s')"
      by (rule Scan_sample_line [OF assms(1-3)])
    show "token ?s' \<noteq> []"
      using assms(4) by simp
    show "Unmarshal_map j (token ?s') = Some (exit_notification x)"
      using assms(5) by simp
    show "map_of (exit_notification x) ''id'' = None
            \<or> map_of (exit_notification x) ''id'' = Some JNull"
      by (simp add: exit_notification_fields(1))
  qed (rule exit_notification_fields)+
qed

text \<open>
  Claim C6 as stated fails: a code that does not fit an \<^verbatim>\<open>int\<close> is not rejected. For the
  exit notification with code \<^verbatim>\<open>1e19\<close>, which is above \<open>2\<^sup>6\<^sup>3\<close>, the exec endpoint answers
  200 with an exit code: the value the conversion gives on the platform, here amd64.
\<close>

theorem exit_code_out_of_range_counterexample:
  "Unmarshal_map sample_JSON exit_1e19 = Some (exit_notification (10 ^ 19))
   \<and> (2 :: real) ^ 63 \<le> 10 ^ 19
   \<and> execSandbox sample_JSON amd64_out_of_range Write_ok
        (sim_handler (framed_agent (exit_1e19 @ [10]))) engine0 ''box1'' (Some python_request)
       = (JSON_exec 200
            \<lparr>Stdout = [], Stderr = [], Artifacts = [],
             ExitCode = Some (- 9223372036854775808)\<rparr>, engine0)"
proof -
  let ?conn = "NewDockerStream \<lparr>process = framed_agent (exit_1e19 @ [10])\<rparr>"
  let ?w = "Marshal sample_JSON (exec_request ''python3'' [''-c'', Code python_request]) @ [10]"
  have rd: "stream_read ?conn ?w = exit_1e19 @ [10]"
    by (rule stream_read_framed) (simp add: exit_1e19_def)
  have ne: "exit_1e19 \<noteq> []"
    by (simp add: exit_1e19_def)
  have big: "(2 :: real) ^ 63 \<le> 10 ^ 19"
    by simp
  have conv: "int_of_float64 amd64_out_of_range (Finite (10 ^ 19)) = - 9223372036854775808"
    using int_of_float64_out_of_range [of "10 ^ 19" amd64_out_of_range] big
    by (simp add: amd64_out_of_range_def)
  have "exec_loop sample_JSON amd64_out_of_range
          (Buffer (NewScanner (exit_1e19 @ [10])) (64 * 1024) (1024 * 1024)) exec_state0
        = (None, exec_state0\<lparr>exitCode := Some (- 9223372036854775808)\<rparr>)"
    using exec_loop_sample [OF sample_lines(7-9) ne sample_decoding(3), of amd64_out_of_range]
    by (simp only: conv)
  then have "read_answers sample_JSON amd64_out_of_range ?conn ?w
        = JSON_exec 200
            \<lparr>Stdout = [], Stderr = [], Artifacts = [], ExitCode = Some (- 9223372036854775808)\<rparr>"
    by (intro read_answers_exit) (simp only: rd)
  then show ?thesis
    by (simp only: execSandbox_python_box1 sample_decoding(3) big simp_thms)
qed

text \<open>
  Claim C6, amended. When the next line the scanner delivers is an exit notification
  whose code is the JSON number \<open>x\<close>, the reading loop ends and records \<^verbatim>\<open>int(x)\<close> as the
  exit code, which the response carries when the line is the first of the stream. If
  \<open>x\<close> truncated toward zero fits an \<^verbatim>\<open>int\<close> of 64 bits, that is the exit code. If it
  does not, nothing is rejected: the exit code is what the conversion gives on the
  platform.
\<close>

theorem exit_code_narrowed:
  assumes "Scan scanner = (True, scanner')" and "token scanner' \<noteq> []"
    and "Unmarshal_map j (token scanner') = Some generic"
    and "map_of generic ''id'' = None \<or> map_of generic ''id'' = Some JNull"
    and "map_index generic ''method'' = JString ''exit''"
    and "map_index generic ''params'' = JObject params"
    and "map_index params ''code'' = JNumber (Finite x)"
  shows "exec_loop j out_of_range scanner st
           = (None, st\<lparr>exitCode := Some (int_of_float64 out_of_range (Finite x))\<rparr>)
       \<and> (scanner = Buffer (NewScanner (stream_read conn written)) (64 * 1024) (1024 * 1024)
            \<longrightarrow> read_answers j out_of_range conn written
                  = JSON_exec 200
                      \<lparr>Stdout = [], Stderr = [], Artifacts = [],
                       ExitCode = Some (int_of_float64 out_of_range (Finite x))\<rparr>)
       \<and> (- (2 ^ 63) - 1 < x \<and> x < 2 ^ 63
            \<longrightarrow> int_of_float64 out_of_range (Finite x) = (if 0 \<le> x then \<lfloor>x\<rfloor> else \<lceil>x\<rceil>))
       \<and> (x \<le> - (2 ^ 63) - 1 \<or> 2 ^ 63 \<le> x
            \<longrightarrow> int_of_float64 out_of_range (Finite x) = out_of_range (Finite x))"
proof (intro conjI impI)
  show loop: "exec_loop j out_of_range scanner st
           = (None, st\<lparr>exitCode := Some (int_of_float64 out_of_range (Finite x))\<rparr>)" for st
    by (rule exec_loop_exit [OF assms])
  assume "scanner = Buffer (NewScanner (stream_read conn written)) (64 * 1024) (1024 * 1024)"
  then show "read_answers j out_of_range conn written
               = JSON_exec 200
                   \<lparr>Stdout = [], Stderr = [], Artifacts = [],
                    ExitCode = Some (int_of_float64 out_of_range (Finite x))\<rparr>"
    using loop [of exec_state0] by (intro read_answers_exit) simp
next
  assume "- (2 ^ 63) - 1 < x \<and> x < 2 ^ 63"
  then show "int_of_float64 out_of_range (Finite x) = (if 0 \<le> x then \<lfloor>x\<rfloor> else \<lceil>x\<rceil>)"
    by (intro int_of_float64_in_range) simp_all
next
  assume "x \<le> - (2 ^ 63) - 1 \<or> 2 ^ 63 \<le> x"
  then show "int_of_float64 out_of_range (Finite x) = out_of_range (Finite x)"
    by (rule int_of_float64_out_of_range)
qed

text \<open>
  On the in-memory engine: an agent whose only line is the exit notification with code
  \<^verbatim>\<open>3.5\<close>, and one with code \<^verbatim>\<open>-3.5\<close>. The exec endpoint answers with exit code 3 and
  \<open>-3\<close>.
\<close>

theorem exit_code_narrowed_witness:
  "execSandbox sample_JSON amd64_out_of_range Write_ok
     (sim_handler (framed_agent (exit_3_5 @ [10]))) engine0 ''box1'' (Some python_request)
     = (JSON_exec 200 \<lparr>Stdout = [], Stderr = [], Artifacts = [], ExitCode = Some 3\<rparr>, engine0)
   \<and> execSandbox sample_JSON amd64_out_of_range Write_ok
       (sim_handler (framed_agent (exit_minus_3_5 @ [10]))) engine0 ''box1'' (Some python_request)
     = (JSON_exec 200 \<lparr>Stdout = [], Stderr = [], Artifacts = [], ExitCode = Some (- 3)\<rparr>,
        engine0)"
proof -
  let ?w = "Marshal sample_JSON (exec_request ''python3'' [''-c'', Code python_request]) @ [10]"
  have answer:
    "read_answers sample_JSON amd64_out_of_range
       (NewDockerStream \<lparr>process = framed_agent (line @ [10])\<rparr>) ?w
     = JSON_exec 200
         \<lparr>Stdout = [], Stderr = [], Artifacts = [],
          ExitCode = Some (if 0 \<le> x then \<lfloor>x\<rfloor> else \<lceil>x\<rceil>)\<rparr>"
    if l: "10 \<notin> set line" "length line < 64 * 1024" "line = [] \<or> last line \<noteq> 13"
      and ne: "line \<noteq> []"
      and dec: "Unmarshal_map sample_JSON line = Some (exit_notification x)"
      and range: "- (2 ^ 63) - 1 < x" "x < 2 ^ 63"
    for line x
  proof -
    let ?conn = "NewDockerStream \<lparr>process = framed_agent (line @ [10])\<rparr>"
    let ?s = "Buffer (NewScanner (line @ [10])) (64 * 1024) (1024 * 1024)"
    let ?s' = "\<lparr>rd = [], maxTokenSize = 1024 * 1024, token = line, buf_len = 64 * 1024,
                start = length line + 1, held = [], s_err = None\<rparr>"
    have rd: "stream_read ?conn ?w = line @ [10]"
      using l(2) by (intro stream_read_framed) simp
    have scan: "Scan ?s = (True, ?s')"
      by (rule Scan_sample_line [OF l])
    have tok: "token ?s' \<noteq> []"
      using ne by simp
    have dec': "Unmarshal_map sample_JSON (token ?s') = Some (exit_notification x)"
      using dec by simp
    have noid: "map_of (exit_notification x) ''id'' = None
                  \<or> map_of (exit_notification x) ''id'' = Some JNull"
      by (simp add: exit_notification_fields(1))
    note inst = exit_code_narrowed
      [OF scan tok dec' noid exit_notification_fields(2-4),
       where out_of_range = amd64_out_of_range and conn = ?conn and written = ?w
         and st = exec_state0]
    have a: "read_answers sample_JSON amd64_out_of_range ?conn ?w
               = JSON_exec 200
                   \<lparr>Stdout = [], Stderr = [], Artifacts = [],
                    ExitCode = Some (int_of_float64 amd64_out_of_range (Finite x))\<rparr>"
      using inst rd by simp
    have b: "int_of_float64 amd64_out_of_range (Finite x) = (if 0 \<le> x then \<lfloor>x\<rfloor> else \<lceil>x\<rceil>)"
      using inst range by blast
    show ?thesis
      by (simp only: a b)
  qed
  have ne: "exit_3_5 \<noteq> []" "exit_minus_3_5 \<noteq> []"
    by (simp_all add: exit_3_5_def exit_minus_3_5_def)
  have p: "read_answers sample_JSON amd64_out_of_range
             (NewDockerStream \<lparr>process = framed_agent (exit_3_5 @ [10])\<rparr>) ?w
           = JSON_exec 200 \<lparr>Stdout = [], Stderr = [], Artifacts = [], ExitCode = Some 3\<rparr>"
    using answer [OF sample_lines(1-3) ne(1) sample_decoding(1)] by simp
  have m: "read_answers sample_JSON amd64_out_of_range
             (NewDockerStream \<lparr>process = framed_agent (exit_minus_3_5 @ [10])\<rparr>) ?w
           = JSON_exec 200 \<lparr>Stdout = [], Stderr = [], Artifacts = [], ExitCode = Some (- 3)\<rparr>"
    using answer [OF sample_lines(4-6) ne(2) sample_decoding(2)] by simp
  show ?thesis
    by (simp only: execSandbox_python_box1 p m simp_thms)
qed

section \<open>The language of an exec request\<close>

text \<open>
  Claim C7. For a request whose language is none of \<^verbatim>\<open>python\<close>, \<^verbatim>\<open>javascript\<close>, \<^verbatim>\<open>node\<close>,
  \<^verbatim>\<open>bash\<close> and \<^verbatim>\<open>sh\<close>, the exec endpoint answers 400 and returns the backend state it was
  given, with any driver and client: no call is made. For the known languages it goes
  on as with the command \<^verbatim>\<open>python3\<close>, \<^verbatim>\<open>node\<close> or \<^verbatim>\<open>bash\<close> and the two arguments \<^verbatim>\<open>-c\<close>
  (\<^verbatim>\<open>-e\<close> for \<^verbatim>\<open>node\<close>) and the code: it connects, and on a connection it sends the
  request \<^verbatim>\<open>exec\<close> with exactly that command and those arguments, followed by a newline.
\<close>

theorem execSandbox_language:
  "(Language req \<notin> {''python'', ''javascript'', ''node'', ''bash'', ''sh''} \<longrightarrow>
      execSandbox j out_of_range Write h s cid (Some req)
        = (HTTPError 400 (''unsupported language: '' @ Language req), s))
   \<and> (Language req = ''python'' \<longrightarrow>
      execSandbox j out_of_range Write h s cid (Some req)
        = exec_rpc j out_of_range Write h s cid ''python3'' [''-c'', Code req])
   \<and> (Language req \<in> {''javascript'', ''node''} \<longrightarrow>
      execSandbox j out_of_range Write h s cid (Some req)
        = exec_rpc j out_of_range Write h s cid ''node'' [''-e'', Code req])
   \<and> (Language req \<in> {''bash'', ''sh''} \<longrightarrow>
      execSandbox j out_of_range Write h s cid (Some req)
        = exec_rpc j out_of_range Write h s cid ''bash'' [''-c'', Code req])
   \<and> (Connect (driver h) s cid = (Inr conn, s1) \<longrightarrow>
      exec_rpc j out_of_range Write h s cid cmd args
        = (case Write conn
                  (Marshal j
                     (NewRequest ''exec''
                        [(''cmd'', JString cmd), (''args'', JArray (map JString args))]
                        (JNumber (Finite 1))) @ [10]) of
             Some e \<Rightarrow> (HTTPError 500 ''failed to send request'', s1)
           | None \<Rightarrow>
               (read_answers j out_of_range conn
                  (Marshal j
                     (NewRequest ''exec''
                        [(''cmd'', JString cmd), (''args'', JArray (map JString args))]
                        (JNumber (Finite 1))) @ [10]), s1)))"
proof (intro conjI impI)
  assume "Language req \<notin> {''python'', ''javascript'', ''node'', ''bash'', ''sh''}"
  then show "execSandbox j out_of_range Write h s cid (Some req)
               = (HTTPError 400 (''unsupported language: '' @ Language req), s)"
    by (simp add: execSandbox_def exec_command_def)
next
  assume "Language req = ''python''"
  then show "execSandbox j out_of_range Write h s cid (Some req)
               = exec_rpc j out_of_range Write h s cid ''python3'' [''-c'', Code req]"
    by (simp add: execSandbox_def exec_command_def)
next
  assume "Language req \<in> {''javascript'', ''node''}"
  then show "execSandbox j out_of_range Write h s cid (Some req)
               = exec_rpc j out_of_range Write h s cid ''node'' [''-e'', Code req]"
    by (auto simp add: execSandbox_def exec_command_def)
next
  assume "Language req \<in> {''bash'', ''sh''}"
  then show "execSandbox j out_of_range Write h s cid (Some req)
               = exec_rpc j out_of_range Write h s cid ''bash'' [''-c'', Code req]"
    by (auto simp add: execSandbox_def exec_command_def)
next
  assume "Connect (driver h) s cid = (Inr conn, s1)"
  then show "exec_rpc j out_of_range Write h s cid cmd args
        = (case Write conn
                  (Marshal j
                     (NewRequest ''exec''
                        [(''cmd'', JString cmd), (''args'', JArray (map JString args))]
                        (JNumber (Finite 1))) @ [10]) of
             Some e \<Rightarrow> (HTTPError 500 ''failed to send request'', s1)
           | None \<Rightarrow>
               (read_answers j out_of_range conn
                  (Marshal j
                     (NewRequest ''exec''
                        [(''cmd'', JString cmd), (''args'', JArray (map JString args))]
                        (JNumber (Finite 1))) @ [10]), s1))"
    unfolding exec_rpc_def exec_request_def by simp
qed

lemma read_answers_silent:
  "read_answers j out_of_range (NewDockerStream \<lparr>process = silent_agent\<rparr>) w
     = JSON_exec 200 \<lparr>Stdout = [], Stderr = [], Artifacts = [], ExitCode = None\<rparr>"
proof -
  let ?s = "Buffer (NewScanner []) (64 * 1024) (1024 * 1024)"
  have rd: "stream_read (NewDockerStream \<lparr>process = silent_agent\<rparr>) w = []"
    by (simp add: stream_read_def NewDockerStream_def silent_agent_def demux_short)
  have one: "Scan ?s = Scan (?s\<lparr>s_err := Some EOF\<rparr>)"
    by (subst Scan.simps)
       (simp add: Buffer_def NewScanner_def split_held_def shift_def buf_end_def fill_def)
  have two: "Scan (?s\<lparr>s_err := Some EOF\<rparr>) = (False, ?s\<lparr>s_err := Some EOF\<rparr>)"
    by (subst Scan.simps)
       (simp add: Buffer_def NewScanner_def split_held_def ScanLines_def)
  have eof: "Scan ?s = (False, ?s\<lparr>s_err := Some EOF\<rparr>)"
    by (simp only: one two)
  have "exec_loop j out_of_range ?s exec_state0 = (Some EOF, exec_state0)"
    by (subst exec_loop.simps, subst eof) (simp add: after_loop_def Err_def)
  then show ?thesis
    by (simp add: read_answers_def rd exec_state0_def)
qed

text \<open>
  On the in-memory engine: Ruby is refused with 400 and the engine untouched, even for
  a sandbox that does not exist, where a connection would have failed; a Python request reaches an agent that ends its answer with exit
  code 3.5 over a connection that takes the expected request and nothing else; and a
  shell request reaches an agent that answers nothing.
\<close>

theorem execSandbox_language_witness:
  "execSandbox sample_JSON amd64_out_of_range Write_ok
     (sim_handler (framed_agent (exit_3_5 @ [10]))) engine0 ''ghost'' (Some ruby_request)
     = (HTTPError 400 ''unsupported language: ruby'', engine0)
   \<and> execSandbox sample_JSON amd64_out_of_range
       (Write_only (Marshal sample_JSON
          (NewRequest ''exec''
             [(''cmd'', JString ''python3''),
              (''args'', JArray [JString ''-c'', JString ''import sys; sys.exit(3)''])]
             (JNumber (Finite 1))) @ [10]))
       (sim_handler (framed_agent (exit_3_5 @ [10]))) engine0 ''box1'' (Some python_request)
     = (JSON_exec 200 \<lparr>Stdout = [], Stderr = [], Artifacts = [], ExitCode = Some 3\<rparr>, engine0)
   \<and> execSandbox sample_JSON amd64_out_of_range Write_ok (sim_handler silent_agent) engine0
       ''box1'' (Some \<lparr>Code = ''true'', Language = ''sh''\<rparr>)
     = (JSON_exec 200 \<lparr>Stdout = [], Stderr = [], Artifacts = [], ExitCode = None\<rparr>, engine0)"
proof -
  let ?agent = "framed_agent (exit_3_5 @ [10])"
  let ?rq = "NewRequest ''exec''
               [(''cmd'', JString ''python3''),
                (''args'', JArray [JString ''-c'', JString ''import sys; sys.exit(3)''])]
               (JNumber (Finite 1))"
  let ?sh = "\<lparr>Code = ''true'', Language = ''sh''\<rparr>"
  have ruby: "execSandbox sample_JSON amd64_out_of_range Write_ok (sim_handler ?agent) engine0
                ''ghost'' (Some ruby_request)
              = (HTTPError 400 ''unsupported language: ruby'', engine0)"
    using execSandbox_language
      [where req = ruby_request and j = sample_JSON and out_of_range = amd64_out_of_range
         and Write = Write_ok and h = "sim_handler ?agent" and s = engine0 and cid = "''ghost''"]
    by (simp add: ruby_request_def)
  have ne: "exit_3_5 \<noteq> []"
    by (simp add: exit_3_5_def)
  have rd: "stream_read (NewDockerStream \<lparr>process = ?agent\<rparr>) w = exit_3_5 @ [10]" for w
    by (rule stream_read_framed) (simp add: exit_3_5_def)
  have conv: "int_of_float64 amd64_out_of_range (Finite (7 / 2)) = 3"
    using int_of_float64_in_range [of "7 / 2" amd64_out_of_range] by simp
  have answer: "read_answers sample_JSON amd64_out_of_range
                  (NewDockerStream \<lparr>process = ?agent\<rparr>) w
                = JSON_exec 200 \<lparr>Stdout = [], Stderr = [], Artifacts = [], ExitCode = Some 3\<rparr>"
    for w
    using exec_loop_sample [OF sample_lines(1-3) ne sample_decoding(1), of amd64_out_of_range]
    by (intro read_answers_exit) (simp only: rd conv)
  have conn: "Connect (driver (sim_handler a)) engine0 ''box1''
                = (Inr (NewDockerStream \<lparr>process = a\<rparr>), engine0)" for a
    by (simp add: sim_handler_def Connect_box1)
  have python: "execSandbox sample_JSON amd64_out_of_range
                  (Write_only (Marshal sample_JSON ?rq @ [10])) (sim_handler ?agent) engine0
                  ''box1'' (Some python_request)
                = (JSON_exec 200
                     \<lparr>Stdout = [], Stderr = [], Artifacts = [], ExitCode = Some 3\<rparr>, engine0)"
    using execSandbox_language
      [where req = python_request and j = sample_JSON and out_of_range = amd64_out_of_range
         and Write = "Write_only (Marshal sample_JSON ?rq @ [10])"
         and h = "sim_handler ?agent" and s = engine0 and cid = "''box1''"
         and conn = "NewDockerStream \<lparr>process = ?agent\<rparr>" and ?s1.0 = engine0
         and cmd = "''python3''" and args = "[''-c'', Code python_request]"]
      conn [of ?agent]
    by (simp add: python_request_def Write_only_def answer)
  have shell: "execSandbox sample_JSON amd64_out_of_range Write_ok (sim_handler silent_agent)
                 engine0 ''box1'' (Some ?sh)
               = (JSON_exec 200
                    \<lparr>Stdout = [], Stderr = [], Artifacts = [], ExitCode = None\<rparr>, engine0)"
    using execSandbox_language
      [where req = ?sh and j = sample_JSON and out_of_range = amd64_out_of_range
         and Write = Write_ok and h = "sim_handler silent_agent" and s = engine0
         and cid = "''box1''" and conn = "NewDockerStream \<lparr>process = silent_agent\<rparr>"
         and ?s1.0 = engine0 and cmd = "''bash''" and args = "[''-c'', Code ?sh]"]
      conn [of silent_agent]
    by (simp add: Write_ok_def read_answers_silent)
  from ruby python shell show ?thesis
    by blast
qed

end
